theory Spec2Isabelle
  imports Main
begin

section \<open>Strings: the placeholder substitution of \<open>String.prototype.replace\<close>\<close>

text \<open>
  Both source files build the switch command with
  \<^verbatim>\<open>switchCmd.replace(/{im}/, im)\<close>: a regular expression without the global flag and
  without capture groups, whose only match is the literal text \<open>{im}\<close>, and a replacement
  given as a string. JavaScript replaces the leftmost match only, and it expands the
  replacement string first: \<open>$$\<close> stands for one dollar sign, \<open>$&\<close> for the matched text,
  \<open>$`\<close> for the text before the match and \<open>$'\<close> for the text after it. With no capture
  group, \<open>$1\<close> .. \<open>$99\<close> and \<open>$<\<close> stay as they are written.
\<close>

primrec startsWith :: "string \<Rightarrow> string \<Rightarrow> bool" where
  "startsWith [] s = True"
| "startsWith (p # ps) s = (case s of [] \<Rightarrow> False | c # cs \<Rightarrow> p = c \<and> startsWith ps cs)"

text \<open>The leftmost match of a literal pattern: the text before it and the text after it.\<close>

fun firstMatch :: "string \<Rightarrow> string \<Rightarrow> (string \<times> string) option" where
  "firstMatch pat [] = (if startsWith pat [] then Some ([], []) else None)"
| "firstMatch pat (c # cs) =
     (if startsWith pat (c # cs) then Some ([], drop (length pat) (c # cs))
      else (case firstMatch pat cs of
              None \<Rightarrow> None
            | Some (pre, post) \<Rightarrow> Some (c # pre, post)))"

text \<open>
  The expansion of the replacement string (GetSubstitution of the language standard, for a
  match without captures): \<open>matched\<close> is the matched text, \<open>pre\<close> and \<open>post\<close> are the
  texts before and after the match.
\<close>

fun getSubstitution :: "string \<Rightarrow> string \<Rightarrow> string \<Rightarrow> string \<Rightarrow> string" where
  "getSubstitution matched pre post [] = []"
| "getSubstitution matched pre post [c] = [c]"
| "getSubstitution matched pre post (c # d # t) =
     (if c = CHR ''$'' \<and> d = CHR ''$'' then CHR ''$'' # getSubstitution matched pre post t
      else if c = CHR ''$'' \<and> d = CHR ''&'' then matched @ getSubstitution matched pre post t
      else if c = CHR ''$'' \<and> d = CHR 0x60 then pre @ getSubstitution matched pre post t
      else if c = CHR ''$'' \<and> d = CHR 0x27 then post @ getSubstitution matched pre post t
      else c # getSubstitution matched pre post (d # t))"

definition String_replace :: "string \<Rightarrow> string \<Rightarrow> string \<Rightarrow> string" where
  "String_replace pat s replacement =
     (case firstMatch pat s of
        None \<Rightarrow> s
      | Some (pre, post) \<Rightarrow> pre @ getSubstitution pat pre post replacement @ post)"

text \<open>
  What the specification says of the substitution: the first literal occurrence of the
  token is replaced by the target string itself, and everything else is kept.
\<close>

definition substituteFirst :: "string \<Rightarrow> string \<Rightarrow> string \<Rightarrow> string" where
  "substituteFirst token template im =
     (case firstMatch token template of
        None \<Rightarrow> template
      | Some (pre, post) \<Rightarrow> pre @ im @ post)"

text \<open>A dollar sign followed by one of the four characters that \<open>replace\<close> expands.\<close>

fun hasDollarPattern :: "string \<Rightarrow> bool" where
  "hasDollarPattern (c # d # t) =
     ((c = CHR ''$'' \<and> (d = CHR ''$'' \<or> d = CHR ''&'' \<or> d = CHR 0x60 \<or> d = CHR 0x27))
      \<or> hasDollarPattern (d # t))"
| "hasDollarPattern _ = False"

section \<open>Settings (src/main.ts)\<close>

definition INSERTION_MODE_PREVIOUS :: string where
  "INSERTION_MODE_PREVIOUS = ''_PREVIOUS_''"

record PlatformSettings =
  normalIM :: string
  insertionIM :: string
  obtainCmd :: string
  switchCmd :: string

record Settings =
  normalModeOnFocus :: bool
  defaultPlatformSettings :: PlatformSettings
  windowsPlatformSettings :: PlatformSettings

text \<open>
  \<open>RawSettings\<close> is the flat shape that is saved. Its fields carry the prefix \<open>raw_\<close> here,
  since several of them have the names of fields of \<open>PlatformSettings\<close>.
\<close>

record RawSettings =
  raw_defaultIM :: string
  raw_insertionIM :: string
  raw_obtainCmd :: string
  raw_switchCmd :: string
  raw_windowsDefaultIM :: string
  raw_windowsInsertionIM :: string
  raw_windowsObtainCmd :: string
  raw_windowsSwitchCmd :: string
  raw_normalModeOnFocus :: bool

definition DEFAULT_SETTINGS :: RawSettings where
  "DEFAULT_SETTINGS =
     \<lparr> raw_defaultIM = '''',
       raw_insertionIM = INSERTION_MODE_PREVIOUS,
       raw_obtainCmd = '''',
       raw_switchCmd = '''',
       raw_windowsDefaultIM = '''',
       raw_windowsInsertionIM = INSERTION_MODE_PREVIOUS,
       raw_windowsObtainCmd = '''',
       raw_windowsSwitchCmd = '''',
       raw_normalModeOnFocus = False \<rparr>"

text \<open>
  What \<open>loadData\<close> hands back is the saved object, or null when nothing was saved. A saved
  object may lack any of the keys (an older version of the plugin wrote fewer of them), so
  every key is optional; the values are taken to have the types \<open>RawSettings\<close> declares.
\<close>

record SavedData =
  saved_defaultIM :: "string option"
  saved_insertionIM :: "string option"
  saved_obtainCmd :: "string option"
  saved_switchCmd :: "string option"
  saved_windowsDefaultIM :: "string option"
  saved_windowsInsertionIM :: "string option"
  saved_windowsObtainCmd :: "string option"
  saved_windowsSwitchCmd :: "string option"
  saved_normalModeOnFocus :: "bool option"

definition orDefault :: "'a \<Rightarrow> 'a option \<Rightarrow> 'a" where
  "orDefault d v = (case v of None \<Rightarrow> d | Some x \<Rightarrow> x)"

text \<open>\<^verbatim>\<open>Object.assign({}, DEFAULT_SETTINGS, data)\<close>: each key of \<open>data\<close> overrides the default.\<close>

definition Object_assign :: "RawSettings \<Rightarrow> SavedData option \<Rightarrow> RawSettings" where
  "Object_assign defaults data =
     (case data of
        None \<Rightarrow> defaults
      | Some d \<Rightarrow>
          \<lparr> raw_defaultIM = orDefault (raw_defaultIM defaults) (saved_defaultIM d),
            raw_insertionIM = orDefault (raw_insertionIM defaults) (saved_insertionIM d),
            raw_obtainCmd = orDefault (raw_obtainCmd defaults) (saved_obtainCmd d),
            raw_switchCmd = orDefault (raw_switchCmd defaults) (saved_switchCmd d),
            raw_windowsDefaultIM = orDefault (raw_windowsDefaultIM defaults) (saved_windowsDefaultIM d),
            raw_windowsInsertionIM =
              orDefault (raw_windowsInsertionIM defaults) (saved_windowsInsertionIM d),
            raw_windowsObtainCmd = orDefault (raw_windowsObtainCmd defaults) (saved_windowsObtainCmd d),
            raw_windowsSwitchCmd = orDefault (raw_windowsSwitchCmd defaults) (saved_windowsSwitchCmd d),
            raw_normalModeOnFocus =
              orDefault (raw_normalModeOnFocus defaults) (saved_normalModeOnFocus d) \<rparr>)"

definition loadSettings :: "SavedData option \<Rightarrow> Settings" where
  "loadSettings data =
     (let s = Object_assign DEFAULT_SETTINGS data in
      \<lparr> normalModeOnFocus = raw_normalModeOnFocus s,
        defaultPlatformSettings =
          \<lparr> normalIM = raw_defaultIM s,
            insertionIM = raw_insertionIM s,
            obtainCmd = raw_obtainCmd s,
            switchCmd = raw_switchCmd s \<rparr>,
        windowsPlatformSettings =
          \<lparr> normalIM = raw_windowsDefaultIM s,
            insertionIM = raw_windowsInsertionIM s,
            obtainCmd = raw_windowsObtainCmd s,
            switchCmd = raw_windowsSwitchCmd s \<rparr> \<rparr>)"

text \<open>\<open>saveSettings\<close> builds the flat object and passes it to \<open>saveData\<close>.\<close>

definition saveSettings :: "Settings \<Rightarrow> RawSettings" where
  "saveSettings s =
     \<lparr> raw_defaultIM = normalIM (defaultPlatformSettings s),
       raw_insertionIM = insertionIM (defaultPlatformSettings s),
       raw_obtainCmd = obtainCmd (defaultPlatformSettings s),
       raw_switchCmd = switchCmd (defaultPlatformSettings s),
       raw_windowsDefaultIM = normalIM (windowsPlatformSettings s),
       raw_windowsInsertionIM = insertionIM (windowsPlatformSettings s),
       raw_windowsObtainCmd = obtainCmd (windowsPlatformSettings s),
       raw_windowsSwitchCmd = switchCmd (windowsPlatformSettings s),
       raw_normalModeOnFocus = normalModeOnFocus s \<rparr>"

text \<open>The store keeps the object it was given: every key of it is present at the next load.\<close>

definition saveData :: "RawSettings \<Rightarrow> SavedData option" where
  "saveData r =
     Some \<lparr> saved_defaultIM = Some (raw_defaultIM r),
            saved_insertionIM = Some (raw_insertionIM r),
            saved_obtainCmd = Some (raw_obtainCmd r),
            saved_switchCmd = Some (raw_switchCmd r),
            saved_windowsDefaultIM = Some (raw_windowsDefaultIM r),
            saved_windowsInsertionIM = Some (raw_windowsInsertionIM r),
            saved_windowsObtainCmd = Some (raw_windowsObtainCmd r),
            saved_windowsSwitchCmd = Some (raw_windowsSwitchCmd r),
            saved_normalModeOnFocus = Some (raw_normalModeOnFocus r) \<rparr>"

section \<open>Running commands and reporting errors\<close>

text \<open>
  \<open>exec\<close> is \<open>child_process.exec\<close> made into a promise: it resolves to an object with the
  fields \<open>stdout\<close> and \<open>stderr\<close>, or it is rejected with an error. The plugin does not
  choose that outcome: the operating system does. The model takes it from a \<open>world\<close>, a
  function of what happened so far and of the command, so that any run of outcomes can be
  described. The error is kept as the text \<open>showError\<close> prints for it.
\<close>

datatype exec_result = Resolved (stdout: string) (stderr: string) | Rejected string

text \<open>What the plugin does to the outside: the commands it runs and the errors it reports.\<close>

datatype event = Exec string | ConsoleError string string | Notice string

type_synonym world = "event list \<Rightarrow> string \<Rightarrow> exec_result"

fun isExec :: "event \<Rightarrow> bool" where
  "isExec (Exec c) = True"
| "isExec _ = False"

definition commands :: "event list \<Rightarrow> event list" where
  "commands es = filter isExec es"

text \<open>\<open>showError\<close> writes to the console and opens a notice.\<close>

definition showErrorEvents :: "string \<Rightarrow> string \<Rightarrow> event list" where
  "showErrorEvents msg err = [ConsoleError msg err, Notice (''Error: '' @ msg @ '' ('' @ err @ '')'')]"

section \<open>The plugin (src/main.ts)\<close>

text \<open>
  The fields of the class. \<open>previousVimMode\<close> is assigned \<open>modeObj.mode\<close>, which is
  undefined when the object has no such key: \<open>None\<close> stands for undefined there, and the
  initial value is the empty string. \<open>previousIMEMode\<close> is a string or null. \<open>trace\<close> is
  not a field of the class: it records the events of the run, oldest first.

  The class declares \<open>settings: Settings\<close> without an initialiser, and no statement of
  src/main.ts writes the field (\<open>loadSettings\<close> returns the settings and \<open>onload\<close> drops
  them). So the field is undefined on the plugin as it is created, and \<open>None\<close> stands for
  undefined. A plugin whose field holds settings is one that was given them from outside.
\<close>

record VimImPlugin =
  settings :: "Settings option"
  previousIMEMode :: "string option"
  previousVimMode :: "string option"
  isWinPlatform :: bool
  trace :: "event list"

datatype error = TypeError

text \<open>The plugin as its field initialisers leave it.\<close>

definition newPlugin :: VimImPlugin where
  "newPlugin =
     \<lparr> settings = None, previousIMEMode = None, previousVimMode = Some '''',
       isWinPlatform = False, trace = [] \<rparr>"

text \<open>
  The parameter \<open>windows\<close> is optional and defaults to \<open>this.isWinPlatform\<close>. Both
  branches read a property of \<open>this.settings\<close>, which raises a TypeError when the field
  is undefined.
\<close>

definition getPlatformSettings :: "VimImPlugin \<Rightarrow> bool option \<Rightarrow> error + PlatformSettings" where
  "getPlatformSettings p windows =
     (case settings p of
        None \<Rightarrow> Inl TypeError
      | Some s \<Rightarrow>
          Inr (if (case windows of None \<Rightarrow> isWinPlatform p | Some b \<Rightarrow> b)
               then windowsPlatformSettings s
               else defaultPlatformSettings s))"

definition showError :: "VimImPlugin \<Rightarrow> string \<Rightarrow> string \<Rightarrow> VimImPlugin" where
  "showError p msg err = p\<lparr>trace := trace p @ showErrorEvents msg err\<rparr>"

definition exec :: "world \<Rightarrow> VimImPlugin \<Rightarrow> string \<Rightarrow> exec_result \<times> VimImPlugin" where
  "exec w p cmd = (w (trace p) cmd, p\<lparr>trace := trace p @ [Exec cmd]\<rparr>)"

text \<open>
  \<open>execSwitch\<close> reads the settings outside its \<open>try\<close> block, so a TypeError there leaves
  the function; a rejected command is caught and reported.
\<close>

definition execSwitch :: "world \<Rightarrow> VimImPlugin \<Rightarrow> string \<Rightarrow> error + VimImPlugin" where
  "execSwitch w p im =
     (case getPlatformSettings p None of
        Inl e \<Rightarrow> Inl e
      | Inr ps \<Rightarrow>
          (let cmd = String_replace ''{im}'' (switchCmd ps) im in
           case exec w p cmd of
             (Resolved out errOut, p1) \<Rightarrow> Inr p1
           | (Rejected err, p1) \<Rightarrow>
               Inr (showError p1 ''An error has occurred while switching IME mode'' err)))"

definition onInsert :: "world \<Rightarrow> VimImPlugin \<Rightarrow> error + VimImPlugin" where
  "onInsert w p =
     (case getPlatformSettings p None of
        Inl e \<Rightarrow> Inl e
      | Inr ps \<Rightarrow>
          (let mode = Some (insertionIM ps);
               mode = (if mode = Some INSERTION_MODE_PREVIOUS then previousIMEMode p else mode)
           in case mode of
                None \<Rightarrow> Inr p
              | Some im \<Rightarrow> execSwitch w p im))"

definition onNormal :: "world \<Rightarrow> VimImPlugin \<Rightarrow> error + VimImPlugin" where
  "onNormal w p =
     (case getPlatformSettings p None of
        Inl e \<Rightarrow> Inl e
      | Inr ps \<Rightarrow>
          (let obtainCmd' = obtainCmd ps;
               p2 = (case exec w p obtainCmd' of
                       (Resolved out errOut, p1) \<Rightarrow> p1\<lparr>previousIMEMode := Some out\<rparr>
                     | (Rejected err, p1) \<Rightarrow>
                         showError p1 ''An error occcurred while switching IME mode'' err)
           in case getPlatformSettings p2 None of
                Inl e \<Rightarrow> Inl e
              | Inr ps2 \<Rightarrow> execSwitch w p2 (normalIM ps2)))"

subsection \<open>Mode notifications\<close>

text \<open>
  The handler takes a value of any type. The model covers the values it tells apart:
  undefined, null, and an object, given by its own keys in order with their values.
  The values of the keys are taken to be strings (the editor sends
  \<^verbatim>\<open>{mode: "visual", subMode: "linewise"}\<close>), and the first entry of a key is the one read.
\<close>

datatype modeObj = Undefined | Null | Object "(string \<times> string) list"

text \<open>
  \<^verbatim>\<open>obj && typeof obj === "object" && Object.keys(obj).length === 0\<close>: undefined and null
  are falsy, so they are not empty.
\<close>

fun isEmpty :: "modeObj \<Rightarrow> bool" where
  "isEmpty Undefined = False"
| "isEmpty Null = False"
| "isEmpty (Object kvs) = (kvs = [])"

text \<open>
  \<open>modeObj.mode\<close> raises a TypeError on undefined and on null. On an object without the
  key it is undefined, which is no \<open>"insert"\<close>, so the default branch of the switch runs.
\<close>

fun getMode :: "modeObj \<Rightarrow> error + string option" where
  "getMode Undefined = Inl TypeError"
| "getMode Null = Inl TypeError"
| "getMode (Object kvs) = Inr (map_of kvs ''mode'')"

text \<open>
  The handler awaits \<open>onInsert\<close> and \<open>onNormal\<close>: when one of them raises, the handler
  raises too and does not reach the assignment to \<open>previousVimMode\<close>.
\<close>

definition onVimModeChanged :: "world \<Rightarrow> VimImPlugin \<Rightarrow> modeObj \<Rightarrow> error + VimImPlugin" where
  "onVimModeChanged w p m =
     (if isEmpty m then Inr p
      else case getMode m of
             Inl e \<Rightarrow> Inl e
           | Inr mode \<Rightarrow>
               (case (if mode = Some ''insert'' then onInsert w p
                      else if previousVimMode p = Some ''insert'' then onNormal w p
                      else Inr p) of
                  Inl e \<Rightarrow> Inl e
                | Inr p1 \<Rightarrow> Inr (p1\<lparr>previousVimMode := mode\<rparr>)))"

text \<open>
  The plugin after a call. Every operation above raises, if it does, before it runs a
  command or writes a field (lemmas \<open>execSwitch_raises\<close>, \<open>onInsert_raises\<close>,
  \<open>onNormal_raises\<close> and \<open>onVimModeChanged_raises\<close> say when), so a call that raises
  leaves the plugin as it was.
\<close>

definition stateAfter :: "error + VimImPlugin \<Rightarrow> VimImPlugin \<Rightarrow> VimImPlugin" where
  "stateAfter r p = (case r of Inl e \<Rightarrow> p | Inr p' \<Rightarrow> p')"

text \<open>
  The editor calls the handler once for each notification, and the next notification is
  handled whether or not the last handler raised. Each handler is taken to finish before
  the next one starts.
\<close>

definition notify :: "world \<Rightarrow> VimImPlugin \<Rightarrow> modeObj \<Rightarrow> VimImPlugin" where
  "notify w p m = stateAfter (onVimModeChanged w p m) p"

fun notifyAll :: "world \<Rightarrow> VimImPlugin \<Rightarrow> modeObj list \<Rightarrow> VimImPlugin" where
  "notifyAll w p [] = p"
| "notifyAll w p (m # ms) = notifyAll w (notify w p m) ms"

subsection \<open>Loading the plugin\<close>

text \<open>
  \<open>onload\<close> awaits \<open>loadSettings\<close> and does not store what it returns, registers the
  handlers, and sets \<open>isWinPlatform\<close> from \<open>os.type()\<close>. It then reads the settings of the
  platform just detected to set \<open>previousIMEMode\<close>: where the field \<open>settings\<close> is
  undefined this raises, after \<open>isWinPlatform\<close> was written and before \<open>previousIMEMode\<close>
  is. So \<open>onload\<close> gives back the plugin as it leaves it together with the error, if any.
  It runs no command.
\<close>

definition onload :: "string \<Rightarrow> VimImPlugin \<Rightarrow> error option \<times> VimImPlugin" where
  "onload osType p =
     (let p1 = p\<lparr>isWinPlatform := (osType = ''Windows_NT'')\<rparr>
      in case getPlatformSettings p1 None of
           Inl e \<Rightarrow> (Some e, p1)
         | Inr ps \<Rightarrow> (None, p1\<lparr>previousIMEMode := Some (normalIM ps)\<rparr>))"

text \<open>
  The handlers that \<open>onload\<close> registers: one for an opened file, and one for the focus
  of the window, which it registers only when \<open>normalModeOnFocus\<close> is set.
\<close>

definition onFileOpen :: "world \<Rightarrow> VimImPlugin \<Rightarrow> error + VimImPlugin" where
  "onFileOpen w p = onNormal w p"

definition onFocus :: "world \<Rightarrow> VimImPlugin \<Rightarrow> error + VimImPlugin" where
  "onFocus w p = (if previousVimMode p \<noteq> Some ''insert'' then onNormal w p else Inr p)"

section \<open>The plugin with flat settings (src/unnamed/part_000)\<close>

text \<open>
  The second source file holds the same plugin with one flat settings object and an
  operation \<open>switchToNormalIME\<close> where the first file has \<open>onNormal\<close>. Names that the two
  files share carry the suffix \<open>_p0\<close> here, and the fields the prefix \<open>p0_\<close>.
\<close>

record VimImPluginSettings =
  p0_defaultIM :: string
  p0_obtainCmd :: string
  p0_switchCmd :: string
  p0_windowsDefaultIM :: string
  p0_windowsObtainCmd :: string
  p0_windowsSwitchCmd :: string
  p0_switchOnInsert :: bool
  p0_normalModeOnFocus :: bool

definition DEFAULT_SETTINGS_p0 :: VimImPluginSettings where
  "DEFAULT_SETTINGS_p0 =
     \<lparr> p0_defaultIM = '''',
       p0_obtainCmd = '''',
       p0_switchCmd = '''',
       p0_windowsDefaultIM = '''',
       p0_windowsObtainCmd = '''',
       p0_windowsSwitchCmd = '''',
       p0_switchOnInsert = True,
       p0_normalModeOnFocus = False \<rparr>"

record SavedData_p0 =
  saved0_defaultIM :: "string option"
  saved0_obtainCmd :: "string option"
  saved0_switchCmd :: "string option"
  saved0_windowsDefaultIM :: "string option"
  saved0_windowsObtainCmd :: "string option"
  saved0_windowsSwitchCmd :: "string option"
  saved0_switchOnInsert :: "bool option"
  saved0_normalModeOnFocus :: "bool option"

record VimImPlugin_p0 =
  p0_settings :: VimImPluginSettings
  p0_previousIMEMode :: "string option"
  p0_previousVimMode :: "string option"
  p0_isWinPlatform :: bool
  p0_trace :: "event list"

text \<open>Here \<open>loadSettings\<close> stores the merged object in the field \<open>settings\<close>.\<close>

definition loadSettings_p0 :: "SavedData_p0 option \<Rightarrow> VimImPlugin_p0 \<Rightarrow> VimImPlugin_p0" where
  "loadSettings_p0 data p =
     p\<lparr>p0_settings :=
         (case data of
            None \<Rightarrow> DEFAULT_SETTINGS_p0
          | Some d \<Rightarrow>
              \<lparr> p0_defaultIM = orDefault (p0_defaultIM DEFAULT_SETTINGS_p0) (saved0_defaultIM d),
                p0_obtainCmd = orDefault (p0_obtainCmd DEFAULT_SETTINGS_p0) (saved0_obtainCmd d),
                p0_switchCmd = orDefault (p0_switchCmd DEFAULT_SETTINGS_p0) (saved0_switchCmd d),
                p0_windowsDefaultIM =
                  orDefault (p0_windowsDefaultIM DEFAULT_SETTINGS_p0) (saved0_windowsDefaultIM d),
                p0_windowsObtainCmd =
                  orDefault (p0_windowsObtainCmd DEFAULT_SETTINGS_p0) (saved0_windowsObtainCmd d),
                p0_windowsSwitchCmd =
                  orDefault (p0_windowsSwitchCmd DEFAULT_SETTINGS_p0) (saved0_windowsSwitchCmd d),
                p0_switchOnInsert =
                  orDefault (p0_switchOnInsert DEFAULT_SETTINGS_p0) (saved0_switchOnInsert d),
                p0_normalModeOnFocus =
                  orDefault (p0_normalModeOnFocus DEFAULT_SETTINGS_p0) (saved0_normalModeOnFocus d) \<rparr>)\<rparr>"

text \<open>
  The plugin as its field initialisers leave it. The field \<open>settings\<close> has no initialiser;
  \<open>onload\<close> fills it before anything reads it, and the defaults stand in for it until then.
\<close>

definition newPlugin_p0 :: VimImPlugin_p0 where
  "newPlugin_p0 =
     \<lparr> p0_settings = DEFAULT_SETTINGS_p0, p0_previousIMEMode = None,
       p0_previousVimMode = Some '''', p0_isWinPlatform = False, p0_trace = [] \<rparr>"

definition onload_p0 :: "SavedData_p0 option \<Rightarrow> string \<Rightarrow> VimImPlugin_p0 \<Rightarrow> VimImPlugin_p0" where
  "onload_p0 data osType p =
     (let p1 = loadSettings_p0 data p;
          p2 = p1\<lparr>p0_isWinPlatform := (osType = ''Windows_NT'')\<rparr>
      in p2\<lparr>p0_previousIMEMode :=
              Some (if p0_isWinPlatform p2 then p0_windowsDefaultIM (p0_settings p2)
                    else p0_defaultIM (p0_settings p2))\<rparr>)"

definition showError_p0 :: "VimImPlugin_p0 \<Rightarrow> string \<Rightarrow> string \<Rightarrow> VimImPlugin_p0" where
  "showError_p0 p msg err = p\<lparr>p0_trace := p0_trace p @ showErrorEvents msg err\<rparr>"

definition exec_p0 :: "world \<Rightarrow> VimImPlugin_p0 \<Rightarrow> string \<Rightarrow> exec_result \<times> VimImPlugin_p0" where
  "exec_p0 w p cmd = (w (p0_trace p) cmd, p\<lparr>p0_trace := p0_trace p @ [Exec cmd]\<rparr>)"

definition switchToPreviousIME :: "world \<Rightarrow> VimImPlugin_p0 \<Rightarrow> VimImPlugin_p0" where
  "switchToPreviousIME w p =
     (case p0_previousIMEMode p of
        None \<Rightarrow> p
      | Some prev \<Rightarrow>
          (let switchCmd' =
                 (if p0_isWinPlatform p
                  then String_replace ''{im}'' (p0_windowsSwitchCmd (p0_settings p)) prev
                  else String_replace ''{im}'' (p0_switchCmd (p0_settings p)) prev)
           in case exec_p0 w p switchCmd' of
                (Resolved out errOut, p1) \<Rightarrow> p1
              | (Rejected err, p1) \<Rightarrow>
                  showError_p0 p1 ''An error has occurred while switching IME mode'' err))"

definition onSwitchToInsert :: "world \<Rightarrow> VimImPlugin_p0 \<Rightarrow> VimImPlugin_p0" where
  "onSwitchToInsert w p = (if \<not> p0_switchOnInsert (p0_settings p) then p else switchToPreviousIME w p)"

text \<open>
  In \<open>switchToNormalIME\<close> one \<open>try\<close> block holds both commands: when the first one is
  rejected, control goes to the handler and the second one is not run.
\<close>

definition switchToNormalIME :: "world \<Rightarrow> VimImPlugin_p0 \<Rightarrow> VimImPlugin_p0" where
  "switchToNormalIME w p =
     (let switchCmd' =
            (if p0_isWinPlatform p
             then String_replace ''{im}'' (p0_windowsSwitchCmd (p0_settings p))
                    (p0_windowsDefaultIM (p0_settings p))
             else String_replace ''{im}'' (p0_switchCmd (p0_settings p)) (p0_defaultIM (p0_settings p)));
          obtainCmd' =
            (if p0_isWinPlatform p then p0_windowsObtainCmd (p0_settings p)
             else p0_obtainCmd (p0_settings p))
      in case exec_p0 w p obtainCmd' of
           (Rejected err, p1) \<Rightarrow> showError_p0 p1 ''An error occcurred while switching IME mode'' err
         | (Resolved out errOut, p1) \<Rightarrow>
             (case exec_p0 w (p1\<lparr>p0_previousIMEMode := Some out\<rparr>) switchCmd' of
                (Rejected err, p2) \<Rightarrow>
                  showError_p0 p2 ''An error occcurred while switching IME mode'' err
              | (Resolved out2 errOut2, p2) \<Rightarrow> p2))"

section \<open>Trimming, as the specification words it\<close>

text \<open>
  The specification speaks of the trimmed standard output. \<open>trimmed\<close> removes the white
  space and the line ends at both ends of a string, as \<open>String.prototype.trim\<close> does on
  text of one byte per character. No source file calls it.
\<close>

definition isWhiteSpace :: "char \<Rightarrow> bool" where
  "isWhiteSpace c =
     (c = CHR '' '' \<or> c = CHR 0x09 \<or> c = CHR 0x0A \<or> c = CHR 0x0B \<or> c = CHR 0x0C \<or> c = CHR 0x0D)"

definition trimmed :: "string \<Rightarrow> string" where
  "trimmed s = rev (dropWhile isWhiteSpace (rev (dropWhile isWhiteSpace s)))"

section \<open>Notifications by the mode they carry\<close>

text \<open>A notification with a key \<open>mode\<close> whose value is another string than \<open>"insert"\<close>.\<close>

fun carriesNonInsertMode :: "modeObj \<Rightarrow> bool" where
  "carriesNonInsertMode (Object kvs) =
     (case map_of kvs ''mode'' of None \<Rightarrow> False | Some m \<Rightarrow> m \<noteq> ''insert'')"
| "carriesNonInsertMode _ = False"

text \<open>A notification with a key \<open>mode\<close> whose value is \<open>"insert"\<close>.\<close>

fun carriesInsertMode :: "modeObj \<Rightarrow> bool" where
  "carriesInsertMode (Object kvs) = (map_of kvs ''mode'' = Some ''insert'')"
| "carriesInsertMode _ = False"

text \<open>The IM that \<open>onInsert\<close> switches to, when there are settings and there is one.\<close>

definition insertionTarget :: "VimImPlugin \<Rightarrow> string option" where
  "insertionTarget p =
     (case getPlatformSettings p None of
        Inl e \<Rightarrow> None
      | Inr ps \<Rightarrow>
          (if insertionIM ps = INSERTION_MODE_PREVIOUS then previousIMEMode p
           else Some (insertionIM ps)))"

text \<open>What the handler does to the plugin on a notification whose \<open>mode\<close> is \<open>"insert"\<close>.\<close>

definition insertStep :: "world \<Rightarrow> VimImPlugin \<Rightarrow> VimImPlugin" where
  "insertStep w p =
     (case onInsert w p of Inl e \<Rightarrow> p | Inr p' \<Rightarrow> p'\<lparr>previousVimMode := Some ''insert''\<rparr>)"

text \<open>The events by which a rejected command is reported; a resolved one gives none.\<close>

definition reported :: "string \<Rightarrow> exec_result \<Rightarrow> event list" where
  "reported msg r = (case r of Resolved out errOut \<Rightarrow> [] | Rejected err \<Rightarrow> showErrorEvents msg err)"

section \<open>Sample settings and worlds\<close>

definition sampleSettings :: Settings where
  "sampleSettings =
     \<lparr> normalModeOnFocus = False,
       defaultPlatformSettings =
         \<lparr> normalIM = ''com.apple.keylayout.ABC'', insertionIM = INSERTION_MODE_PREVIOUS,
           obtainCmd = ''im-select'', switchCmd = ''im-select {im}'' \<rparr>,
       windowsPlatformSettings =
         \<lparr> normalIM = ''1033'', insertionIM = ''2052'',
           obtainCmd = ''im-select.exe'', switchCmd = ''im-select.exe {im}'' \<rparr> \<rparr>"

text \<open>A created plugin that was given settings.\<close>

definition pluginWith :: "Settings \<Rightarrow> VimImPlugin" where
  "pluginWith s = newPlugin\<lparr>settings := Some s\<rparr>"

definition sampleSettings_p0 :: VimImPluginSettings where
  "sampleSettings_p0 =
     \<lparr> p0_defaultIM = ''com.apple.keylayout.ABC'',
       p0_obtainCmd = ''im-select'',
       p0_switchCmd = ''im-select {im}'',
       p0_windowsDefaultIM = ''1033'',
       p0_windowsObtainCmd = ''im-select.exe'',
       p0_windowsSwitchCmd = ''im-select.exe {im}'',
       p0_switchOnInsert = True,
       p0_normalModeOnFocus = False \<rparr>"

text \<open>Saved data of the plugin of src/unnamed/part_000 that holds the same settings.\<close>

definition sampleSaved_p0 :: "SavedData_p0 option" where
  "sampleSaved_p0 =
     Some \<lparr> saved0_defaultIM = Some ''com.apple.keylayout.ABC'',
            saved0_obtainCmd = Some ''im-select'',
            saved0_switchCmd = Some ''im-select {im}'',
            saved0_windowsDefaultIM = Some ''1033'',
            saved0_windowsObtainCmd = Some ''im-select.exe'',
            saved0_windowsSwitchCmd = Some ''im-select.exe {im}'',
            saved0_switchOnInsert = None,
            saved0_normalModeOnFocus = None \<rparr>"

text \<open>A world in which every command succeeds and prints \<open>out\<close>.\<close>

definition resolving :: "string \<Rightarrow> world" where
  "resolving out tr cmd = Resolved out ''''"

text \<open>A world in which the commands of \<open>bad\<close> fail and every other one prints \<open>out\<close>.\<close>

definition rejecting :: "string list \<Rightarrow> string \<Rightarrow> world" where
  "rejecting bad out tr cmd =
     (if cmd \<in> set bad then Rejected ''Error: Command failed'' else Resolved out '''')"

section \<open>The matcher and the substitution\<close>

text \<open>
  \<open>firstMatch\<close> finds an occurrence of the pattern, finds one whenever there is one, and
  finds the leftmost one.
\<close>

lemma startsWith_iff: "startsWith pat s \<longleftrightarrow> (\<exists>r. s = pat @ r)"
  by (induction pat arbitrary: s) (auto split: list.splits)

lemma startsWith_drop: "startsWith pat s \<Longrightarrow> s = pat @ drop (length pat) s"
  by (auto simp: startsWith_iff)

lemma firstMatch_Some: "firstMatch pat s = Some (b, a) \<Longrightarrow> s = b @ pat @ a"
proof (induction s arbitrary: b)
  case Nil
  then show ?case by (cases pat) (auto split: if_splits)
next
  case (Cons c cs)
  show ?case
  proof (cases "startsWith pat (c # cs)")
    case True
    with Cons.prems have "b = []" "a = drop (length pat) (c # cs)" by auto
    with startsWith_drop [OF True] show ?thesis by simp
  next
    case False
    with Cons.prems obtain b' where "firstMatch pat cs = Some (b', a)" "b = c # b'"
      by (auto split: option.splits)
    with Cons.IH show ?thesis by simp
  qed
qed

lemma firstMatch_None: "firstMatch pat s = None \<Longrightarrow> s \<noteq> b @ pat @ a"
proof (induction s arbitrary: b)
  case Nil
  then show ?case by (cases pat) (auto split: if_splits)
next
  case (Cons c cs)
  from Cons.prems have ns: "\<not> startsWith pat (c # cs)" and n: "firstMatch pat cs = None"
    by (auto split: if_splits option.splits)
  show ?case
  proof (cases b)
    case Nil
    with ns show ?thesis by (auto simp: startsWith_iff)
  next
    case (Cons x xs)
    with Cons.IH [OF n, of xs] show ?thesis by auto
  qed
qed

lemma firstMatch_leftmost:
  "firstMatch pat s = Some (b, a) \<Longrightarrow> s = b' @ pat @ a' \<Longrightarrow> length b \<le> length b'"
proof (induction s arbitrary: b b')
  case Nil
  then show ?case by (cases pat) (auto split: if_splits)
next
  case (Cons c cs)
  show ?case
  proof (cases "startsWith pat (c # cs)")
    case True
    with Cons.prems(1) have "b = []" by simp
    then show ?thesis by simp
  next
    case False
    with Cons.prems(1) obtain b0 where b0: "firstMatch pat cs = Some (b0, a)" "b = c # b0"
      by (auto split: option.splits)
    show ?thesis
    proof (cases b')
      case Nil
      with Cons.prems(2) False show ?thesis by (auto simp: startsWith_iff)
    next
      case (Cons x xs)
      with Cons.prems(2) have "cs = xs @ pat @ a'" by simp
      from Cons.IH [OF b0(1) this] b0(2) Cons show ?thesis by simp
    qed
  qed
qed

lemma getSubstitution_plain: "\<not> hasDollarPattern r \<Longrightarrow> getSubstitution m b a r = r"
  by (induction m b a r rule: getSubstitution.induct) auto

lemma String_replace_plain:
  "\<not> hasDollarPattern im \<Longrightarrow> String_replace tok t im = substituteFirst tok t im"
  by (simp add: String_replace_def substituteFirst_def getSubstitution_plain split: option.splits)


section \<open>What the operations run and what they keep\<close>

lemma commands_append: "commands (xs @ ys) = commands xs @ commands ys"
  by (simp add: commands_def)

lemma commands_showErrorEvents: "commands (showErrorEvents msg err) = []"
  by (simp add: commands_def showErrorEvents_def)

lemma filter_isExec_reported: "filter isExec (reported msg r) = []"
  by (cases r) (simp_all add: reported_def showErrorEvents_def)

lemma commands_reported: "commands (reported msg r) = []"
  by (simp add: commands_def filter_isExec_reported)

lemma error_unique: "(e::error) = e'"
  by (cases e; cases e') simp

lemma getPlatformSettings_cong:
  "settings p' = settings p \<Longrightarrow> isWinPlatform p' = isWinPlatform p \<Longrightarrow>
   getPlatformSettings p' x = getPlatformSettings p x"
  by (simp add: getPlatformSettings_def split: option.splits)

lemma getPlatformSettings_update [simp]:
  "getPlatformSettings (p\<lparr>trace := t\<rparr>) x = getPlatformSettings p x"
  "getPlatformSettings (p\<lparr>previousIMEMode := v\<rparr>) x = getPlatformSettings p x"
  "getPlatformSettings (p\<lparr>previousVimMode := m\<rparr>) x = getPlatformSettings p x"
  "getPlatformSettings (showError p msg err) x = getPlatformSettings p x"
  by (simp_all add: getPlatformSettings_def showError_def split: option.splits)

lemma getPlatformSettings_undefined:
  "settings p = None \<Longrightarrow> getPlatformSettings p x = Inl TypeError"
  by (simp add: getPlatformSettings_def)

lemma getPlatformSettings_raises:
  "(getPlatformSettings p x = Inl e) = (settings p = None)"
  by (cases e) (simp add: getPlatformSettings_def split: option.splits)

subsection \<open>The operations on a plugin that has settings\<close>

lemma execSwitch_returns:
  assumes "getPlatformSettings p None = Inr ps"
  shows "execSwitch w p im =
           Inr (p\<lparr>trace :=
                   trace p @ Exec (String_replace ''{im}'' (switchCmd ps) im)
                     # reported ''An error has occurred while switching IME mode''
                         (w (trace p) (String_replace ''{im}'' (switchCmd ps) im))\<rparr>)"
  using assms
  by (simp add: execSwitch_def exec_def showError_def reported_def Let_def
        split: exec_result.splits)

lemma onInsert_returns:
  assumes "getPlatformSettings p None = Inr ps"
  shows "onInsert w p = (case insertionTarget p of None \<Rightarrow> Inr p | Some im \<Rightarrow> execSwitch w p im)"
  using assms by (simp add: onInsert_def insertionTarget_def Let_def)

lemma onNormal_returns:
  assumes "getPlatformSettings p None = Inr ps"
  shows "onNormal w p =
           Inr (p\<lparr>previousIMEMode :=
                   (case w (trace p) (obtainCmd ps) of
                      Resolved out errOut \<Rightarrow> Some out
                    | Rejected err \<Rightarrow> previousIMEMode p),
                 trace :=
                   (trace p @ Exec (obtainCmd ps)
                      # reported ''An error occcurred while switching IME mode''
                          (w (trace p) (obtainCmd ps)))
                   @ Exec (String_replace ''{im}'' (switchCmd ps) (normalIM ps))
                     # reported ''An error has occurred while switching IME mode''
                         (w (trace p @ Exec (obtainCmd ps)
                               # reported ''An error occcurred while switching IME mode''
                                   (w (trace p) (obtainCmd ps)))
                            (String_replace ''{im}'' (switchCmd ps) (normalIM ps)))\<rparr>)"
proof (cases "w (trace p) (obtainCmd ps)")
  case (Resolved out errOut)
  let ?p2 = "p\<lparr>trace := trace p @ [Exec (obtainCmd ps)], previousIMEMode := Some out\<rparr>"
  have ps2: "getPlatformSettings ?p2 None = Inr ps" using assms by simp
  have 1: "onNormal w p = execSwitch w ?p2 (normalIM ps)"
    using assms Resolved by (simp add: onNormal_def exec_def Let_def)
  show ?thesis
    unfolding 1 execSwitch_returns [OF ps2] by (simp add: Resolved reported_def)
next
  case (Rejected err)
  let ?p2 = "showError (p\<lparr>trace := trace p @ [Exec (obtainCmd ps)]\<rparr>)
               ''An error occcurred while switching IME mode'' err"
  have ps2: "getPlatformSettings ?p2 None = Inr ps" using assms by simp
  have 1: "onNormal w p = execSwitch w ?p2 (normalIM ps)"
    using assms Rejected by (simp add: onNormal_def exec_def Let_def)
  show ?thesis
    unfolding 1 execSwitch_returns [OF ps2] by (simp add: Rejected reported_def showError_def)
qed

subsection \<open>When the operations raise\<close>

lemma execSwitch_raises: "(execSwitch w p im = Inl e) = (settings p = None)"
proof (cases "getPlatformSettings p None")
  case (Inl e')
  then have "settings p = None" by (simp add: getPlatformSettings_raises)
  with Inl show ?thesis
    by (cases e; cases e') (simp add: execSwitch_def)
next
  case (Inr ps)
  then have "settings p \<noteq> None" by (auto simp: getPlatformSettings_def split: option.splits)
  then show ?thesis by (simp add: execSwitch_returns [OF Inr])
qed

lemma onInsert_raises: "(onInsert w p = Inl e) = (settings p = None)"
proof (cases "getPlatformSettings p None")
  case (Inl e')
  then have "settings p = None" by (simp add: getPlatformSettings_raises)
  with Inl show ?thesis
    by (cases e; cases e') (simp add: onInsert_def)
next
  case (Inr ps)
  then have "settings p \<noteq> None" by (auto simp: getPlatformSettings_def split: option.splits)
  then show ?thesis
    by (simp add: onInsert_returns [OF Inr] execSwitch_raises split: option.splits)
qed

lemma onNormal_raises: "(onNormal w p = Inl e) = (settings p = None)"
proof (cases "getPlatformSettings p None")
  case (Inl e')
  then have "settings p = None" by (simp add: getPlatformSettings_raises)
  with Inl show ?thesis
    by (cases e; cases e') (simp add: onNormal_def)
next
  case (Inr ps)
  then have "settings p \<noteq> None" by (auto simp: getPlatformSettings_def split: option.splits)
  then show ?thesis by (simp add: onNormal_returns [OF Inr])
qed

lemma onVimModeChanged_raises:
  "(onVimModeChanged w p m = Inl e) =
     (m = Undefined \<or> m = Null \<or>
      (\<exists>kvs. m = Object kvs \<and> kvs \<noteq> [] \<and> settings p = None \<and>
             (map_of kvs ''mode'' = Some ''insert'' \<or> previousVimMode p = Some ''insert'')))"
proof (cases m)
  case Undefined
  then show ?thesis by (cases e) (simp add: onVimModeChanged_def)
next
  case Null
  then show ?thesis by (cases e) (simp add: onVimModeChanged_def)
next
  case (Object kvs)
  show ?thesis
  proof (cases "kvs = []")
    case True
    with Object show ?thesis by (simp add: onVimModeChanged_def)
  next
    case False
    show ?thesis
    proof (cases "settings p")
      case None
      then have "onInsert w p = Inl e" "onNormal w p = Inl e"
        by (simp_all add: onInsert_raises onNormal_raises)
      with Object False None show ?thesis
        by (simp add: onVimModeChanged_def)
    next
      case (Some s)
      then have "onInsert w p \<noteq> Inl e'" "onNormal w p \<noteq> Inl e'" for e'
        by (simp_all add: onInsert_raises onNormal_raises)
      then obtain p1 p2 where "onInsert w p = Inr p1" "onNormal w p = Inr p2"
        by (cases "onInsert w p"; cases "onNormal w p") auto
      with Object False Some show ?thesis
        by (simp add: onVimModeChanged_def)
    qed
  qed
qed

subsection \<open>The commands that are run\<close>

lemma commands_execSwitch:
  assumes "getPlatformSettings p None = Inr ps"
  shows "commands (trace (stateAfter (execSwitch w p im) p)) =
           commands (trace p) @ [Exec (String_replace ''{im}'' (switchCmd ps) im)]"
  by (simp add: execSwitch_returns [OF assms] stateAfter_def commands_def filter_isExec_reported)

lemma commands_onNormal:
  assumes "getPlatformSettings p None = Inr ps"
  shows "commands (trace (stateAfter (onNormal w p) p)) =
           commands (trace p) @
             [Exec (obtainCmd ps), Exec (String_replace ''{im}'' (switchCmd ps) (normalIM ps))]"
  by (simp add: onNormal_returns [OF assms] stateAfter_def commands_def filter_isExec_reported)

lemma onNormal_obtain_rejected_trace:
  assumes "getPlatformSettings p None = Inr ps"
    and "w (trace p) (obtainCmd ps) = Rejected err"
  shows "\<exists>p' rest. onNormal w p = Inr p' \<and>
           trace p' =
             trace p @ [Exec (obtainCmd ps)]
               @ showErrorEvents ''An error occcurred while switching IME mode'' err
               @ [Exec (String_replace ''{im}'' (switchCmd ps) (normalIM ps))]
               @ rest"
  by (simp add: onNormal_returns [OF assms(1)] assms(2) reported_def)

lemma execSwitch_only_trace: "\<exists>t. stateAfter (execSwitch w p im) p = p\<lparr>trace := t\<rparr>"
proof (cases "getPlatformSettings p None")
  case (Inl e)
  then have "execSwitch w p im = Inl e" by (simp add: execSwitch_def)
  then have "stateAfter (execSwitch w p im) p = p\<lparr>trace := trace p\<rparr>"
    by (simp add: stateAfter_def)
  then show ?thesis ..
next
  case (Inr ps)
  show ?thesis by (simp add: execSwitch_returns [OF Inr] stateAfter_def) blast
qed

lemma execSwitch_keeps:
  "settings (stateAfter (execSwitch w p im) p) = settings p"
  "isWinPlatform (stateAfter (execSwitch w p im) p) = isWinPlatform p"
  "previousIMEMode (stateAfter (execSwitch w p im) p) = previousIMEMode p"
  "previousVimMode (stateAfter (execSwitch w p im) p) = previousVimMode p"
  using execSwitch_only_trace [of w p im] by auto

lemma onInsert_only_trace: "\<exists>t. stateAfter (onInsert w p) p = p\<lparr>trace := t\<rparr>"
proof (cases "getPlatformSettings p None")
  case (Inl e)
  then have "onInsert w p = Inl e" by (simp add: onInsert_def)
  then have "stateAfter (onInsert w p) p = p\<lparr>trace := trace p\<rparr>"
    by (simp add: stateAfter_def)
  then show ?thesis ..
next
  case (Inr ps)
  show ?thesis
  proof (cases "insertionTarget p")
    case None
    then have "stateAfter (onInsert w p) p = p\<lparr>trace := trace p\<rparr>"
      by (simp add: onInsert_returns [OF Inr] stateAfter_def)
    then show ?thesis ..
  next
    case (Some im)
    then have "stateAfter (onInsert w p) p = stateAfter (execSwitch w p im) p"
      by (simp add: onInsert_returns [OF Inr])
    with execSwitch_only_trace [of w p im] show ?thesis by simp
  qed
qed

lemma onInsert_keeps:
  "settings (stateAfter (onInsert w p) p) = settings p"
  "isWinPlatform (stateAfter (onInsert w p) p) = isWinPlatform p"
  "previousIMEMode (stateAfter (onInsert w p) p) = previousIMEMode p"
  "previousVimMode (stateAfter (onInsert w p) p) = previousVimMode p"
  using onInsert_only_trace [of w p] by auto

lemma onNormal_only_trace_and_previousIMEMode:
  "\<exists>v t. stateAfter (onNormal w p) p = p\<lparr>previousIMEMode := v, trace := t\<rparr>"
proof (cases "getPlatformSettings p None")
  case (Inl e)
  then have "onNormal w p = Inl e" by (simp add: onNormal_def)
  then have "stateAfter (onNormal w p) p = p\<lparr>previousIMEMode := previousIMEMode p, trace := trace p\<rparr>"
    by (simp add: stateAfter_def)
  then show ?thesis by blast
next
  case (Inr ps)
  show ?thesis by (simp add: onNormal_returns [OF Inr] stateAfter_def) blast
qed

lemma onNormal_keeps:
  "settings (stateAfter (onNormal w p) p) = settings p"
  "isWinPlatform (stateAfter (onNormal w p) p) = isWinPlatform p"
  "previousVimMode (stateAfter (onNormal w p) p) = previousVimMode p"
  using onNormal_only_trace_and_previousIMEMode [of w p] by auto

lemma onNormal_previousIMEMode:
  "previousIMEMode (stateAfter (onNormal w p) p) =
     (case getPlatformSettings p None of
        Inl e \<Rightarrow> previousIMEMode p
      | Inr ps \<Rightarrow>
          (case w (trace p) (obtainCmd ps) of
             Resolved out errOut \<Rightarrow> Some out
           | Rejected err \<Rightarrow> previousIMEMode p))"
proof (cases "getPlatformSettings p None")
  case (Inl e)
  then have r: "onNormal w p = Inl e" by (simp add: onNormal_def)
  show ?thesis by (simp add: r Inl stateAfter_def)
next
  case (Inr ps)
  show ?thesis by (simp add: onNormal_returns [OF Inr] Inr stateAfter_def)
qed

subsection \<open>Notifications\<close>

lemma onVimModeChanged_Object:
  "kvs \<noteq> [] \<Longrightarrow>
   onVimModeChanged w p (Object kvs) =
     (case (if map_of kvs ''mode'' = Some ''insert'' then onInsert w p
            else if previousVimMode p = Some ''insert'' then onNormal w p
            else Inr p) of
        Inl e \<Rightarrow> Inl e
      | Inr p1 \<Rightarrow> Inr (p1\<lparr>previousVimMode := map_of kvs ''mode''\<rparr>))"
  by (simp add: onVimModeChanged_def)

lemma map_of_Some_nonempty: "map_of kvs k = Some v \<Longrightarrow> kvs \<noteq> []"
  by auto

lemma notify_nonInsert:
  assumes "carriesNonInsertMode m" and "previousVimMode p \<noteq> Some ''insert''"
  shows "trace (notify w p m) = trace p \<and> previousVimMode (notify w p m) \<noteq> Some ''insert''"
proof (cases m)
  case (Object kvs)
  with assms(1) obtain mo where mo: "map_of kvs ''mode'' = Some mo" "mo \<noteq> ''insert''"
    by (auto split: option.splits)
  from mo(1) have "kvs \<noteq> []" by (rule map_of_Some_nonempty)
  with mo assms(2) Object show ?thesis
    by (simp add: notify_def stateAfter_def onVimModeChanged_Object)
qed (use assms(1) in simp_all)

lemma notifyAll_nonInsert:
  "list_all carriesNonInsertMode ms \<Longrightarrow> previousVimMode p \<noteq> Some ''insert'' \<Longrightarrow>
   trace (notifyAll w p ms) = trace p"
proof (induction ms arbitrary: p)
  case Nil
  show ?case by simp
next
  case (Cons m ms)
  from Cons.prems have m: "carriesNonInsertMode m" and ms: "list_all carriesNonInsertMode ms"
    by simp_all
  from notify_nonInsert [OF m Cons.prems(2), of w]
  have "trace (notify w p m) = trace p" "previousVimMode (notify w p m) \<noteq> Some ''insert''"
    by simp_all
  with Cons.IH [OF ms, of "notify w p m"] show ?case by simp
qed

lemma notify_insert:
  assumes "carriesInsertMode m"
  shows "notify w p m = insertStep w p"
proof (cases m)
  case (Object kvs)
  with assms have mo: "map_of kvs ''mode'' = Some ''insert''" by simp
  then have "kvs \<noteq> []" by (rule map_of_Some_nonempty)
  with mo Object show ?thesis
    by (simp add: notify_def stateAfter_def insertStep_def onVimModeChanged_Object
          split: sum.splits)
qed (use assms in simp_all)

lemma notifyAll_insert_iterates:
  "list_all carriesInsertMode ms \<Longrightarrow> notifyAll w p ms = (insertStep w ^^ length ms) p"
proof (induction ms arbitrary: p)
  case Nil
  show ?case by simp
next
  case (Cons m ms)
  from Cons.prems have m: "carriesInsertMode m" and ms: "list_all carriesInsertMode ms"
    by simp_all
  have "notify w p m = insertStep w p" by (rule notify_insert [OF m])
  with Cons.IH [OF ms, of "insertStep w p"] show ?case
    by (simp add: funpow_swap1)
qed

lemma insertStep_form:
  "insertStep w p = p \<or>
   insertStep w p = (stateAfter (onInsert w p) p)\<lparr>previousVimMode := Some ''insert''\<rparr>"
  by (cases "onInsert w p") (simp_all add: insertStep_def stateAfter_def)

lemma insertStep_keeps:
  "settings (insertStep w p) = settings p"
  "isWinPlatform (insertStep w p) = isWinPlatform p"
  "previousIMEMode (insertStep w p) = previousIMEMode p"
  using insertStep_form [of w p] by (auto simp: onInsert_keeps)

lemma insertionTarget_cong:
  "settings p' = settings p \<Longrightarrow> isWinPlatform p' = isWinPlatform p \<Longrightarrow>
   previousIMEMode p' = previousIMEMode p \<Longrightarrow> insertionTarget p' = insertionTarget p"
  by (simp add: insertionTarget_def getPlatformSettings_cong [of p' p] split: sum.splits)

lemma commands_insertStep:
  assumes "getPlatformSettings p None = Inr ps" and "insertionTarget p = Some im"
  shows "commands (trace (insertStep w p)) =
           commands (trace p) @ [Exec (String_replace ''{im}'' (switchCmd ps) im)]"
proof -
  have "onInsert w p = execSwitch w p im"
    by (simp add: onInsert_returns [OF assms(1)] assms(2))
  then have "trace (insertStep w p) = trace (stateAfter (execSwitch w p im) p)"
    by (simp add: insertStep_def stateAfter_def split: sum.splits)
  with commands_execSwitch [OF assms(1), of w im] show ?thesis by simp
qed

lemma notifyAll_insert:
  "list_all carriesInsertMode ms \<Longrightarrow> getPlatformSettings p None = Inr ps \<Longrightarrow>
   insertionTarget p = Some im \<Longrightarrow>
   commands (trace (notifyAll w p ms)) =
     commands (trace p) @
       replicate (length ms) (Exec (String_replace ''{im}'' (switchCmd ps) im))"
proof (induction ms arbitrary: p)
  case Nil
  show ?case by simp
next
  case (Cons m ms)
  let ?q = "notify w p m"
  from Cons.prems have m: "carriesInsertMode m" and ms: "list_all carriesInsertMode ms"
    by simp_all
  have q: "?q = insertStep w p" by (rule notify_insert [OF m])
  have same: "settings ?q = settings p" "isWinPlatform ?q = isWinPlatform p"
    "previousIMEMode ?q = previousIMEMode p"
    by (simp_all add: q insertStep_keeps)
  have tgt: "insertionTarget ?q = Some im"
    using insertionTarget_cong [OF same] Cons.prems(3) by simp
  have ps: "getPlatformSettings ?q None = Inr ps"
    using getPlatformSettings_cong [OF same(1,2), of None] Cons.prems(2) by simp
  have "commands (trace ?q) =
          commands (trace p) @ [Exec (String_replace ''{im}'' (switchCmd ps) im)]"
    unfolding q by (rule commands_insertStep [OF Cons.prems(2,3)])
  with Cons.IH [OF ms ps tgt] show ?case
    by (simp add: replicate_append_same)
qed

section \<open>Leaving insertion: \<open>onNormal\<close> and \<open>switchToNormalIME\<close>\<close>

text \<open>
  Claim C1. When the obtain command fails, the error is reported and the switch command
  is still run afterwards with the normal IM in place of the placeholder. \<open>onNormal\<close> of
  src/main.ts does so (lemma \<open>onNormal_obtain_rejected_trace\<close>). \<open>switchToNormalIME\<close> of
  src/unnamed/part_000 does not: with an obtain command \<open>im-select\<close> that fails, it runs
  that command, reports the error and stops; the switch command
  \<open>im-select com.apple.keylayout.ABC\<close> is never run.
\<close>

theorem switchToNormalIME_obtain_rejected_skips_switch:
  "p0_trace (switchToNormalIME (rejecting [''im-select''] ''pinyin'')
              (newPlugin_p0\<lparr>p0_settings := sampleSettings_p0\<rparr>)) =
     [Exec ''im-select'',
      ConsoleError ''An error occcurred while switching IME mode'' ''Error: Command failed'',
      Notice ''Error: An error occcurred while switching IME mode (Error: Command failed)'']
   \<and> Exec ''im-select com.apple.keylayout.ABC''
       \<notin> set (p0_trace (switchToNormalIME (rejecting [''im-select''] ''pinyin'')
                           (newPlugin_p0\<lparr>p0_settings := sampleSettings_p0\<rparr>)))
   \<and> p0_trace (switchToNormalIME (rejecting [''im-select''] ''pinyin'')
                (onload_p0 sampleSaved_p0 ''Darwin'' newPlugin_p0)) =
       [Exec ''im-select'',
        ConsoleError ''An error occcurred while switching IME mode'' ''Error: Command failed'',
        Notice ''Error: An error occcurred while switching IME mode (Error: Command failed)'']
   \<and> commands (trace (stateAfter (onNormal (rejecting [''im-select''] ''pinyin'')
                                      (pluginWith sampleSettings))
                         (pluginWith sampleSettings))) =
       [Exec ''im-select'', Exec ''im-select com.apple.keylayout.ABC'']"
proof -
  have tr: "p0_trace (switchToNormalIME (rejecting [''im-select''] ''pinyin'')
                       (newPlugin_p0\<lparr>p0_settings := sampleSettings_p0\<rparr>)) =
              [Exec ''im-select'',
               ConsoleError ''An error occcurred while switching IME mode'' ''Error: Command failed'',
               Notice ''Error: An error occcurred while switching IME mode (Error: Command failed)'']"
    by (simp add: switchToNormalIME_def exec_p0_def showError_p0_def showErrorEvents_def
          rejecting_def newPlugin_p0_def sampleSettings_p0_def Let_def)
  have tr2: "p0_trace (switchToNormalIME (rejecting [''im-select''] ''pinyin'')
                        (onload_p0 sampleSaved_p0 ''Darwin'' newPlugin_p0)) =
               [Exec ''im-select'',
                ConsoleError ''An error occcurred while switching IME mode'' ''Error: Command failed'',
                Notice ''Error: An error occcurred while switching IME mode (Error: Command failed)'']"
    by (simp add: switchToNormalIME_def exec_p0_def showError_p0_def showErrorEvents_def
          rejecting_def newPlugin_p0_def onload_p0_def loadSettings_p0_def sampleSaved_p0_def
          orDefault_def Let_def)
  have ps: "getPlatformSettings (pluginWith sampleSettings) None =
              Inr (defaultPlatformSettings sampleSettings)"
    by (simp add: getPlatformSettings_def pluginWith_def newPlugin_def)
  have cmds: "commands (trace (stateAfter (onNormal (rejecting [''im-select''] ''pinyin'')
                                             (pluginWith sampleSettings))
                                (pluginWith sampleSettings))) =
                [Exec ''im-select'', Exec ''im-select com.apple.keylayout.ABC'']"
    by (simp add: commands_onNormal [OF ps])
       (simp add: pluginWith_def newPlugin_def sampleSettings_def commands_def String_replace_def)
  from tr tr2 cmds show ?thesis by simp
qed

text \<open>
  Claim C2 (amended). When the obtain command succeeds, \<open>onNormal\<close> sets
  \<open>previousIMEMode\<close> to the standard output of the command exactly as it was captured,
  without trimming it, whatever the field held before. The obtain command is the one of
  the platform settings \<open>ps\<close> that the plugin is on.
\<close>

theorem onNormal_stores_stdout:
  "getPlatformSettings p None = Inr ps \<Longrightarrow>
   w (trace p) (obtainCmd ps) = Resolved out errOut \<Longrightarrow>
   \<exists>p'. onNormal w p = Inr p' \<and> previousIMEMode p' = Some out"
  by (simp add: onNormal_returns)

text \<open>The amended claim C2 at an obtain command that prints \<open>pinyin\<close> and a line end.\<close>

theorem onNormal_stores_stdout_witness:
  "getPlatformSettings ((pluginWith sampleSettings)\<lparr>previousIMEMode := Some ''abc''\<rparr>) None =
     Inr (defaultPlatformSettings sampleSettings)
   \<and> resolving (''pinyin'' @ [CHR 0x0A])
        (trace ((pluginWith sampleSettings)\<lparr>previousIMEMode := Some ''abc''\<rparr>))
        (obtainCmd (defaultPlatformSettings sampleSettings)) =
       Resolved (''pinyin'' @ [CHR 0x0A]) ''''
   \<and> (\<exists>p'. onNormal (resolving (''pinyin'' @ [CHR 0x0A]))
               ((pluginWith sampleSettings)\<lparr>previousIMEMode := Some ''abc''\<rparr>) = Inr p'
             \<and> previousIMEMode p' = Some (''pinyin'' @ [CHR 0x0A]))"
proof -
  let ?w = "resolving (''pinyin'' @ [CHR 0x0A])"
  let ?p = "(pluginWith sampleSettings)\<lparr>previousIMEMode := Some ''abc''\<rparr>"
  let ?ps = "defaultPlatformSettings sampleSettings"
  have g: "getPlatformSettings ?p None = Inr ?ps"
    by (simp add: getPlatformSettings_def pluginWith_def newPlugin_def)
  have h: "?w (trace ?p) (obtainCmd ?ps) = Resolved (''pinyin'' @ [CHR 0x0A]) ''''"
    by (simp add: resolving_def)
  from onNormal_stores_stdout [of ?p ?ps ?w "''pinyin'' @ [CHR 0x0A]" "''''", OF g h] g h
  show ?thesis by blast
qed

text \<open>
  Claim C2 as it is written fails: the output \<open>pinyin\<close> followed by a line end is stored
  with its line end, and the trimmed text is \<open>pinyin\<close>. So it is in src/main.ts on a
  plugin with settings, and so it is in src/unnamed/part_000 after \<open>onload\<close>.
\<close>

theorem onNormal_stores_untrimmed_stdout_counterexample:
  "previousIMEMode (stateAfter (onNormal (resolving (''pinyin'' @ [CHR 0x0A])) (pluginWith sampleSettings))
                      (pluginWith sampleSettings)) =
     Some (''pinyin'' @ [CHR 0x0A])
   \<and> trimmed (''pinyin'' @ [CHR 0x0A]) = ''pinyin''
   \<and> previousIMEMode (stateAfter (onNormal (resolving (''pinyin'' @ [CHR 0x0A])) (pluginWith sampleSettings))
                        (pluginWith sampleSettings)) \<noteq>
       Some (trimmed (''pinyin'' @ [CHR 0x0A]))
   \<and> p0_previousIMEMode (switchToNormalIME (resolving (''pinyin'' @ [CHR 0x0A]))
                          (onload_p0 sampleSaved_p0 ''Darwin'' newPlugin_p0)) =
       Some (''pinyin'' @ [CHR 0x0A])"
proof -
  have a: "previousIMEMode (stateAfter (onNormal (resolving (''pinyin'' @ [CHR 0x0A]))
                                          (pluginWith sampleSettings))
                             (pluginWith sampleSettings)) =
             Some (''pinyin'' @ [CHR 0x0A])"
    by (simp add: onNormal_previousIMEMode getPlatformSettings_def pluginWith_def newPlugin_def
          resolving_def)
  have b: "trimmed (''pinyin'' @ [CHR 0x0A]) = ''pinyin''"
    by (simp add: trimmed_def isWhiteSpace_def)
  have c: "p0_previousIMEMode (switchToNormalIME (resolving (''pinyin'' @ [CHR 0x0A]))
                                (onload_p0 sampleSaved_p0 ''Darwin'' newPlugin_p0)) =
             Some (''pinyin'' @ [CHR 0x0A])"
    by (simp add: switchToNormalIME_def exec_p0_def resolving_def Let_def)
  from a b c show ?thesis by simp
qed

text \<open>
  Claim C10. When the obtain command fails, \<open>onNormal\<close> leaves \<open>previousIMEMode\<close> as it
  was before the call. The obtain command is the one of the platform settings \<open>ps\<close> that
  the plugin is on.
\<close>

theorem onNormal_obtain_rejected_keeps_previousIMEMode:
  "getPlatformSettings p None = Inr ps \<Longrightarrow>
   w (trace p) (obtainCmd ps) = Rejected err \<Longrightarrow>
   \<exists>p'. onNormal w p = Inr p' \<and> previousIMEMode p' = previousIMEMode p"
  by (simp add: onNormal_returns)

text \<open>Claim C10 at a plugin that holds \<open>abc\<close> and an obtain command that fails.\<close>

theorem onNormal_obtain_rejected_keeps_previousIMEMode_witness:
  "getPlatformSettings ((pluginWith sampleSettings)\<lparr>previousIMEMode := Some ''abc''\<rparr>) None =
     Inr (defaultPlatformSettings sampleSettings)
   \<and> rejecting [''im-select''] ''pinyin''
        (trace ((pluginWith sampleSettings)\<lparr>previousIMEMode := Some ''abc''\<rparr>))
        (obtainCmd (defaultPlatformSettings sampleSettings)) =
       Rejected ''Error: Command failed''
   \<and> (\<exists>p'. onNormal (rejecting [''im-select''] ''pinyin'')
               ((pluginWith sampleSettings)\<lparr>previousIMEMode := Some ''abc''\<rparr>) = Inr p'
             \<and> previousIMEMode p' = Some ''abc'')"
proof -
  let ?w = "rejecting [''im-select''] ''pinyin''"
  let ?p = "(pluginWith sampleSettings)\<lparr>previousIMEMode := Some ''abc''\<rparr>"
  let ?ps = "defaultPlatformSettings sampleSettings"
  have g: "getPlatformSettings ?p None = Inr ?ps"
    by (simp add: getPlatformSettings_def pluginWith_def newPlugin_def)
  have h: "?w (trace ?p) (obtainCmd ?ps) = Rejected ''Error: Command failed''"
    by (simp add: rejecting_def sampleSettings_def)
  have i: "previousIMEMode ?p = Some ''abc''" by simp
  from onNormal_obtain_rejected_keeps_previousIMEMode
         [of ?p ?ps ?w "''Error: Command failed''", OF g h] g h i
  show ?thesis by simp
qed

section \<open>Mode notifications\<close>

text \<open>
  Claim C3. A notification whose \<open>mode\<close> is another string than \<open>"insert"\<close> calls
  \<open>onNormal\<close> when \<open>previousVimMode\<close> is \<open>"insert"\<close> and calls nothing otherwise; the list
  of commands grows exactly when \<open>onNormal\<close> is called and finds the settings. So a
  sequence of such notifications, handled by a plugin whose \<open>previousVimMode\<close> is not
  \<open>"insert"\<close>, runs no command and reports no error: so from the plugin as it is created,
  with or without settings, before and after \<open>onload\<close>.
\<close>

theorem nonInsert_notification_enters_normal_after_insert_only:
  "(map_of kvs ''mode'' = Some m \<and> m \<noteq> ''insert'' \<longrightarrow>
      onVimModeChanged w p (Object kvs) =
        (if previousVimMode p = Some ''insert''
         then (case onNormal w p of
                 Inl e \<Rightarrow> Inl e
               | Inr p' \<Rightarrow> Inr (p'\<lparr>previousVimMode := Some m\<rparr>))
         else Inr (p\<lparr>previousVimMode := Some m\<rparr>))
      \<and> ((commands (trace (notify w p (Object kvs))) \<noteq> commands (trace p)) =
           (previousVimMode p = Some ''insert'' \<and> settings p \<noteq> None)))
   \<and> (list_all carriesNonInsertMode ms \<and> previousVimMode p \<noteq> Some ''insert'' \<longrightarrow>
        trace (notifyAll w p ms) = trace p)
   \<and> (list_all carriesNonInsertMode ms \<longrightarrow>
        trace (notifyAll w newPlugin ms) = []
        \<and> trace (notifyAll w (snd (onload osType newPlugin)) ms) = []
        \<and> trace (notifyAll w (pluginWith s) ms) = []
        \<and> trace (notifyAll w (snd (onload osType (pluginWith s))) ms) = [])"
proof -
  have one: "onVimModeChanged w p (Object kvs) =
               (if previousVimMode p = Some ''insert''
                then (case onNormal w p of
                        Inl e \<Rightarrow> Inl e
                      | Inr p' \<Rightarrow> Inr (p'\<lparr>previousVimMode := Some m\<rparr>))
                else Inr (p\<lparr>previousVimMode := Some m\<rparr>))
             \<and> ((commands (trace (notify w p (Object kvs))) \<noteq> commands (trace p)) =
                  (previousVimMode p = Some ''insert'' \<and> settings p \<noteq> None))"
    if m: "map_of kvs ''mode'' = Some m" "m \<noteq> ''insert''"
  proof -
    from m(1) have "kvs \<noteq> []" by (rule map_of_Some_nonempty)
    then have eq: "onVimModeChanged w p (Object kvs) =
                     (if previousVimMode p = Some ''insert''
                      then (case onNormal w p of
                              Inl e \<Rightarrow> Inl e
                            | Inr p' \<Rightarrow> Inr (p'\<lparr>previousVimMode := Some m\<rparr>))
                      else Inr (p\<lparr>previousVimMode := Some m\<rparr>))"
      using m by (simp add: onVimModeChanged_Object split: sum.splits)
    have cmd: "(commands (trace (notify w p (Object kvs))) \<noteq> commands (trace p)) =
                 (previousVimMode p = Some ''insert'' \<and> settings p \<noteq> None)"
    proof (cases "previousVimMode p = Some ''insert''")
      case False
      then show ?thesis by (simp add: notify_def eq stateAfter_def)
    next
      case True
      have tr: "trace (notify w p (Object kvs)) = trace (stateAfter (onNormal w p) p)"
        using True by (simp add: notify_def eq stateAfter_def split: sum.splits)
      show ?thesis
      proof (cases "getPlatformSettings p None")
        case (Inl e)
        then have "settings p = None" by (simp add: getPlatformSettings_raises)
        moreover from this have "onNormal w p = Inl e" by (simp add: onNormal_raises)
        ultimately show ?thesis by (simp add: tr stateAfter_def)
      next
        case (Inr ps)
        then have "settings p \<noteq> None"
          by (auto simp: getPlatformSettings_def split: option.splits)
        with True show ?thesis by (simp add: tr commands_onNormal [OF Inr])
      qed
    qed
    from eq cmd show ?thesis by simp
  qed
  have many: "trace (notifyAll w newPlugin ms) = []
              \<and> trace (notifyAll w (snd (onload osType newPlugin)) ms) = []
              \<and> trace (notifyAll w (pluginWith s) ms) = []
              \<and> trace (notifyAll w (snd (onload osType (pluginWith s))) ms) = []"
    if ms: "list_all carriesNonInsertMode ms"
  proof -
    have "trace (notifyAll w newPlugin ms) = trace newPlugin"
      by (rule notifyAll_nonInsert [OF ms]) (simp add: newPlugin_def)
    moreover have "trace (notifyAll w (snd (onload osType newPlugin)) ms) =
                     trace (snd (onload osType newPlugin))"
      by (rule notifyAll_nonInsert [OF ms])
         (simp add: onload_def newPlugin_def Let_def split: sum.splits)
    moreover have "trace (notifyAll w (pluginWith s) ms) = trace (pluginWith s)"
      by (rule notifyAll_nonInsert [OF ms]) (simp add: pluginWith_def newPlugin_def)
    moreover have "trace (notifyAll w (snd (onload osType (pluginWith s))) ms) =
                     trace (snd (onload osType (pluginWith s)))"
      by (rule notifyAll_nonInsert [OF ms])
         (simp add: onload_def pluginWith_def newPlugin_def Let_def split: sum.splits)
    ultimately show ?thesis
      by (simp add: onload_def pluginWith_def newPlugin_def Let_def split: sum.splits)
  qed
  from one many notifyAll_nonInsert [of ms p w] show ?thesis by blast
qed

text \<open>
  Claim C3 at the notification \<open>normal\<close> after insertion, and at the sequence \<open>normal\<close>,
  \<open>visual\<close>, \<open>normal\<close> from the start.
\<close>

theorem nonInsert_notification_enters_normal_after_insert_only_witness:
  "map_of [(''mode'', ''normal'')] ''mode'' = Some ''normal'' \<and> ''normal'' \<noteq> ''insert''
   \<and> list_all carriesNonInsertMode
        [Object [(''mode'', ''normal'')], Object [(''mode'', ''visual''), (''subMode'', ''linewise'')],
         Object [(''mode'', ''normal'')]]
   \<and> previousVimMode newPlugin \<noteq> Some ''insert''
   \<and> commands (trace (notify (resolving ''pinyin'')
                         ((pluginWith sampleSettings)\<lparr>previousVimMode := Some ''insert''\<rparr>)
                         (Object [(''mode'', ''normal'')]))) \<noteq> []
   \<and> trace (notifyAll (resolving ''pinyin'') newPlugin
              [Object [(''mode'', ''normal'')], Object [(''mode'', ''visual''), (''subMode'', ''linewise'')],
               Object [(''mode'', ''normal'')]]) = []
   \<and> trace (notifyAll (resolving ''pinyin'') (pluginWith sampleSettings)
              [Object [(''mode'', ''normal'')], Object [(''mode'', ''visual''), (''subMode'', ''linewise'')],
               Object [(''mode'', ''normal'')]]) = []"
proof -
  let ?w = "resolving ''pinyin''"
  let ?p = "(pluginWith sampleSettings)\<lparr>previousVimMode := Some ''insert''\<rparr>"
  let ?ms = "[Object [(''mode'', ''normal'')], Object [(''mode'', ''visual''), (''subMode'', ''linewise'')],
              Object [(''mode'', ''normal'')]]"
  have a: "map_of [(''mode'', ''normal'')] ''mode'' = Some ''normal''" "''normal'' \<noteq> ''insert''"
    by simp_all
  have b: "list_all carriesNonInsertMode ?ms" by simp
  have c: "previousVimMode ?p = Some ''insert''" "settings ?p \<noteq> None" "commands (trace ?p) = []"
    by (simp_all add: pluginWith_def newPlugin_def commands_def)
  have d: "previousVimMode newPlugin \<noteq> Some ''insert''" by (simp add: newPlugin_def)
  from nonInsert_notification_enters_normal_after_insert_only
         [of "[(''mode'', ''normal'')]" "''normal''" ?w ?p ?ms "''Darwin''" sampleSettings] a c(1,2)
  have "commands (trace (notify ?w ?p (Object [(''mode'', ''normal'')]))) \<noteq> commands (trace ?p)"
    by blast
  with c(3) have 1: "commands (trace (notify ?w ?p (Object [(''mode'', ''normal'')]))) \<noteq> []"
    by metis
  from nonInsert_notification_enters_normal_after_insert_only
         [of "[(''mode'', ''normal'')]" "''normal''" ?w newPlugin ?ms "''Darwin''" sampleSettings] b d
  have 2: "trace (notifyAll ?w newPlugin ?ms) = []" "trace (notifyAll ?w (pluginWith sampleSettings) ?ms) = []"
    by blast+
  from a b d 1 2 show ?thesis by blast
qed

text \<open>
  Claim C4. A notification whose \<open>mode\<close> is \<open>"insert"\<close> calls \<open>onInsert\<close> whatever
  \<open>previousVimMode\<close> holds. Nothing is left out when such notifications follow one
  another: each of them does what \<open>onInsert\<close> does, and when there is an IM to switch
  to, each of them runs the switch command once.
\<close>

theorem insert_notification_always_enters_insertion:
  "(carriesInsertMode m \<longrightarrow>
      onVimModeChanged w p m =
        (case onInsert w p of
           Inl e \<Rightarrow> Inl e
         | Inr p' \<Rightarrow> Inr (p'\<lparr>previousVimMode := Some ''insert''\<rparr>)))
   \<and> (list_all carriesInsertMode ms \<longrightarrow> notifyAll w p ms = (insertStep w ^^ length ms) p)
   \<and> (list_all carriesInsertMode ms \<and> getPlatformSettings p None = Inr ps
        \<and> insertionTarget p = Some im \<longrightarrow>
        commands (trace (notifyAll w p ms)) =
          commands (trace p) @
            replicate (length ms) (Exec (String_replace ''{im}'' (switchCmd ps) im)))"
proof -
  have one: "onVimModeChanged w p m =
               (case onInsert w p of
                  Inl e \<Rightarrow> Inl e
                | Inr p' \<Rightarrow> Inr (p'\<lparr>previousVimMode := Some ''insert''\<rparr>))"
    if m: "carriesInsertMode m"
  proof (cases m)
    case (Object kvs)
    with m have mo: "map_of kvs ''mode'' = Some ''insert''" by simp
    then have "kvs \<noteq> []" by (rule map_of_Some_nonempty)
    with mo Object show ?thesis by (simp add: onVimModeChanged_Object split: sum.splits)
  qed (use m in simp_all)
  from one notifyAll_insert_iterates [of ms w p] notifyAll_insert [of ms p ps im w]
  show ?thesis by blast
qed

text \<open>Claim C4 at three \<open>insert\<close> notifications in a row, on Windows settings.\<close>

theorem insert_notification_always_enters_insertion_witness:
  "carriesInsertMode (Object [(''mode'', ''insert'')])
   \<and> list_all carriesInsertMode
        [Object [(''mode'', ''insert'')], Object [(''mode'', ''insert'')], Object [(''mode'', ''insert'')]]
   \<and> getPlatformSettings (snd (onload ''Windows_NT'' (pluginWith sampleSettings))) None =
       Inr (windowsPlatformSettings sampleSettings)
   \<and> insertionTarget (snd (onload ''Windows_NT'' (pluginWith sampleSettings))) = Some ''2052''
   \<and> commands (trace (notifyAll (resolving ''1033'') (snd (onload ''Windows_NT'' (pluginWith sampleSettings)))
        [Object [(''mode'', ''insert'')], Object [(''mode'', ''insert'')], Object [(''mode'', ''insert'')]])) =
       [Exec ''im-select.exe 2052'', Exec ''im-select.exe 2052'', Exec ''im-select.exe 2052'']"
proof -
  let ?w = "resolving ''1033''"
  let ?p = "snd (onload ''Windows_NT'' (pluginWith sampleSettings))"
  let ?ps = "windowsPlatformSettings sampleSettings"
  let ?m = "Object [(''mode'', ''insert'')]"
  have m: "carriesInsertMode ?m" by simp
  have ms: "list_all carriesInsertMode [?m, ?m, ?m]" by simp
  have g: "getPlatformSettings ?p None = Inr ?ps"
    by (simp add: onload_def pluginWith_def newPlugin_def getPlatformSettings_def Let_def)
  have t: "insertionTarget ?p = Some ''2052''"
    by (simp add: insertionTarget_def g)
       (simp add: sampleSettings_def INSERTION_MODE_PREVIOUS_def)
  have c: "String_replace ''{im}'' (switchCmd ?ps) ''2052'' = ''im-select.exe 2052''"
    by (simp add: sampleSettings_def String_replace_def)
  have e: "commands (trace ?p) = []"
    by (simp add: onload_def pluginWith_def newPlugin_def getPlatformSettings_def Let_def
          commands_def)
  from insert_notification_always_enters_insertion [of ?m ?w ?p "[?m, ?m, ?m]" ?ps "''2052''"] ms g t
  have "commands (trace (notifyAll ?w ?p [?m, ?m, ?m])) =
          commands (trace ?p) @
            replicate (length [?m, ?m, ?m]) (Exec (String_replace ''{im}'' (switchCmd ?ps) ''2052''))"
    by blast
  then have "commands (trace (notifyAll ?w ?p [?m, ?m, ?m])) =
               [Exec ''im-select.exe 2052'', Exec ''im-select.exe 2052'', Exec ''im-select.exe 2052'']"
    by (simp only: c e) (simp add: numeral_3_eq_3)
  with m ms g t show ?thesis by blast
qed

text \<open>
  Claim C7 (amended). For a notification that is an empty object, an object with no key
  of its own, \<open>onVimModeChanged\<close> returns at once: no command is run, no error is
  reported and no field changes.
\<close>

theorem empty_notification_is_ignored:
  "onVimModeChanged w p (Object []) = Inr p"
  by (simp add: onVimModeChanged_def)

text \<open>
  Claim C7 as it is written fails on a notification that has keys, none of them \<open>mode\<close>:
  it is not empty, its \<open>mode\<close> is undefined, and the default branch runs. On the plugin
  as it is created it sets \<open>previousVimMode\<close> to undefined. On a plugin with settings,
  after an \<open>insert\<close> notification, it also runs both commands of \<open>onNormal\<close> and sets
  \<open>previousIMEMode\<close> to the output of the obtain command.
\<close>

theorem notification_without_mode_not_ignored_counterexample:
  "getMode (Object [(''subMode'', ''linewise'')]) = Inr None
   \<and> onVimModeChanged (resolving ''pinyin'') newPlugin (Object [(''subMode'', ''linewise'')]) =
       Inr \<lparr> settings = None, previousIMEMode = None, previousVimMode = None,
             isWinPlatform = False, trace = [] \<rparr>
   \<and> onVimModeChanged (resolving ''pinyin'') newPlugin (Object [(''subMode'', ''linewise'')]) \<noteq>
       Inr newPlugin
   \<and> notify (resolving ''pinyin'') (pluginWith sampleSettings) (Object [(''mode'', ''insert'')]) =
       \<lparr> settings = Some sampleSettings, previousIMEMode = None, previousVimMode = Some ''insert'',
         isWinPlatform = False, trace = [] \<rparr>
   \<and> onVimModeChanged (resolving ''pinyin'')
        \<lparr> settings = Some sampleSettings, previousIMEMode = None, previousVimMode = Some ''insert'',
          isWinPlatform = False, trace = [] \<rparr>
        (Object [(''subMode'', ''linewise'')]) =
       Inr \<lparr> settings = Some sampleSettings, previousIMEMode = Some ''pinyin'', previousVimMode = None,
             isWinPlatform = False,
             trace = [Exec ''im-select'', Exec ''im-select com.apple.keylayout.ABC''] \<rparr>
   \<and> onVimModeChanged (resolving ''pinyin'')
        \<lparr> settings = Some sampleSettings, previousIMEMode = None, previousVimMode = Some ''insert'',
          isWinPlatform = False, trace = [] \<rparr>
        (Object [(''subMode'', ''linewise'')]) \<noteq>
       Inr \<lparr> settings = Some sampleSettings, previousIMEMode = None, previousVimMode = Some ''insert'',
             isWinPlatform = False, trace = [] \<rparr>"
proof -
  let ?q = "\<lparr> settings = Some sampleSettings, previousIMEMode = None,
              previousVimMode = Some ''insert'', isWinPlatform = False, trace = [] \<rparr>"
  have n: "onVimModeChanged (resolving ''pinyin'') newPlugin (Object [(''subMode'', ''linewise'')]) =
             Inr \<lparr> settings = None, previousIMEMode = None, previousVimMode = None,
                   isWinPlatform = False, trace = [] \<rparr>"
    by (simp add: onVimModeChanged_def newPlugin_def)
  have g: "getPlatformSettings (pluginWith sampleSettings) None =
             Inr (defaultPlatformSettings sampleSettings)"
    "getPlatformSettings ?q None = Inr (defaultPlatformSettings sampleSettings)"
    by (simp_all add: getPlatformSettings_def pluginWith_def newPlugin_def)
  have t: "insertionTarget (pluginWith sampleSettings) = None"
    by (simp add: insertionTarget_def g) (simp add: sampleSettings_def pluginWith_def newPlugin_def)
  have q: "notify (resolving ''pinyin'') (pluginWith sampleSettings) (Object [(''mode'', ''insert'')]) = ?q"
    by (simp add: notify_def stateAfter_def onVimModeChanged_def onInsert_returns [OF g(1)] t)
       (simp add: pluginWith_def newPlugin_def)
  have r: "onVimModeChanged (resolving ''pinyin'') ?q (Object [(''subMode'', ''linewise'')]) =
           Inr \<lparr> settings = Some sampleSettings, previousIMEMode = Some ''pinyin'', previousVimMode = None,
                 isWinPlatform = False,
                 trace = [Exec ''im-select'', Exec ''im-select com.apple.keylayout.ABC''] \<rparr>"
    by (simp add: onVimModeChanged_def onNormal_returns [OF g(2)] resolving_def reported_def)
       (simp add: sampleSettings_def String_replace_def)
  show ?thesis by (simp add: n q r) (simp add: newPlugin_def)
qed

section \<open>Entering insertion\<close>

text \<open>
  The three cases of \<open>onInsert\<close> on a plugin with the platform settings \<open>ps\<close>: nothing is
  run for the sentinel with no previous IM, and \<open>execSwitch\<close> is called with the previous
  IM for the sentinel and with the insertion IM otherwise.
\<close>

lemma onInsert_cases:
  assumes "getPlatformSettings p None = Inr ps"
  shows "(insertionIM ps = INSERTION_MODE_PREVIOUS \<and> previousIMEMode p = None \<longrightarrow>
            onInsert w p = Inr p)
         \<and> (insertionIM ps = INSERTION_MODE_PREVIOUS \<and> previousIMEMode p = Some s \<longrightarrow>
              onInsert w p = execSwitch w p s)
         \<and> (insertionIM ps \<noteq> INSERTION_MODE_PREVIOUS \<longrightarrow>
              onInsert w p = execSwitch w p (insertionIM ps))"
  by (simp add: onInsert_returns [OF assms] insertionTarget_def assms)

text \<open>
  Where the target has no dollar sign followed by \<open>$\<close>, \<open>&\<close>, a backquote or a quote,
  \<open>execSwitch\<close> runs the template with its first \<open>{im}\<close> replaced by the target, as the
  specification says: so for \<open>im-select {im}\<close> and \<open>com.apple.inputmethod.SCIM.ITABC\<close>.
\<close>

lemma execSwitch_plain_target:
  "getPlatformSettings p None = Inr ps \<Longrightarrow> \<not> hasDollarPattern im \<Longrightarrow>
   commands (trace (stateAfter (execSwitch w p im) p)) =
     commands (trace p) @ [Exec (substituteFirst ''{im}'' (switchCmd ps) im)]"
  by (simp add: commands_execSwitch String_replace_plain)

lemma execSwitch_sample:
  "commands (trace (stateAfter (execSwitch w (pluginWith sampleSettings) ''com.apple.inputmethod.SCIM.ITABC'')
                      (pluginWith sampleSettings))) =
     [Exec ''im-select com.apple.inputmethod.SCIM.ITABC'']"
proof -
  have g: "getPlatformSettings (pluginWith sampleSettings) None =
             Inr (defaultPlatformSettings sampleSettings)"
    by (simp add: getPlatformSettings_def pluginWith_def newPlugin_def)
  show ?thesis
    by (simp add: commands_execSwitch [OF g])
       (simp add: pluginWith_def newPlugin_def sampleSettings_def String_replace_def commands_def)
qed

lemma substituteFirst_sample:
  "substituteFirst ''{im}'' ''im-select {im} {im}'' ''abc'' = ''im-select abc {im}''"
  by (simp add: substituteFirst_def)

text \<open>
  Claim C5. \<open>onInsert\<close> is to run nothing for the sentinel with no previous IM, and
  otherwise the switch command with \<open>{im}\<close> replaced by the previous IM (for the
  sentinel) or by the insertion IM. The choice of the target is as the claim says (lemma
  \<open>onInsert_cases\<close>), but the command is not for every target: \<open>replace\<close> expands the
  dollar patterns of the target. With the sentinel and the previous IM \<open>$&\<close> the command
  run is \<open>im-select {im}\<close>, not \<open>im-select $&\<close>; with the insertion IM \<open>a$$b\<close> it is
  \<open>im-select a$b\<close>, not \<open>im-select a$$b\<close>. In src/unnamed/part_000 the same happens in a
  run from the created plugin: \<open>onload\<close>, an obtain command that prints \<open>$&\<close>, and then
  \<open>onSwitchToInsert\<close>.
\<close>

theorem onInsert_expands_dollar_pattern:
  "insertionIM (defaultPlatformSettings sampleSettings) = INSERTION_MODE_PREVIOUS
   \<and> onInsert (resolving '''') ((pluginWith sampleSettings)\<lparr>previousIMEMode := Some ''$&''\<rparr>) =
       Inr \<lparr> settings = Some sampleSettings, previousIMEMode = Some ''$&'',
             previousVimMode = Some '''', isWinPlatform = False,
             trace = [Exec ''im-select {im}''] \<rparr>
   \<and> substituteFirst ''{im}'' ''im-select {im}'' ''$&'' = ''im-select $&''
   \<and> trace (stateAfter
              (onInsert (resolving '''')
                 (pluginWith (sampleSettings\<lparr>defaultPlatformSettings :=
                    (defaultPlatformSettings sampleSettings)\<lparr>insertionIM := ''a$$b''\<rparr>\<rparr>)))
              (pluginWith (sampleSettings\<lparr>defaultPlatformSettings :=
                 (defaultPlatformSettings sampleSettings)\<lparr>insertionIM := ''a$$b''\<rparr>\<rparr>))) =
       [Exec ''im-select a$b'']
   \<and> substituteFirst ''{im}'' ''im-select {im}'' ''a$$b'' = ''im-select a$$b''
   \<and> p0_trace (onSwitchToInsert (resolving '''')
                (switchToNormalIME (resolving ''$&'')
                   (onload_p0 sampleSaved_p0 ''Darwin'' newPlugin_p0))) =
       [Exec ''im-select'', Exec ''im-select com.apple.keylayout.ABC'', Exec ''im-select {im}'']"
proof -
  let ?p = "(pluginWith sampleSettings)\<lparr>previousIMEMode := Some ''$&''\<rparr>"
  let ?s2 = "sampleSettings\<lparr>defaultPlatformSettings :=
               (defaultPlatformSettings sampleSettings)\<lparr>insertionIM := ''a$$b''\<rparr>\<rparr>"
  have a: "insertionIM (defaultPlatformSettings sampleSettings) = INSERTION_MODE_PREVIOUS"
    by (simp add: sampleSettings_def)
  have g: "getPlatformSettings ?p None = Inr (defaultPlatformSettings sampleSettings)"
    by (simp add: getPlatformSettings_def pluginWith_def newPlugin_def)
  have g0: "getPlatformSettings (pluginWith sampleSettings) None =
              Inr (defaultPlatformSettings sampleSettings)"
    by (simp add: getPlatformSettings_def pluginWith_def newPlugin_def)
  have t: "insertionTarget ?p = Some ''$&''"
    by (simp add: insertionTarget_def g0 a)
  have b: "onInsert (resolving '''') ?p =
             Inr \<lparr> settings = Some sampleSettings, previousIMEMode = Some ''$&'',
                   previousVimMode = Some '''', isWinPlatform = False,
                   trace = [Exec ''im-select {im}''] \<rparr>"
    by (simp add: onInsert_returns [OF g] t execSwitch_returns [OF g] resolving_def reported_def)
       (simp add: pluginWith_def newPlugin_def sampleSettings_def String_replace_def)
  have g2: "getPlatformSettings (pluginWith ?s2) None = Inr (defaultPlatformSettings ?s2)"
    by (simp add: getPlatformSettings_def pluginWith_def newPlugin_def)
  have t2: "insertionTarget (pluginWith ?s2) = Some ''a$$b''"
    by (simp add: insertionTarget_def g2) (simp add: INSERTION_MODE_PREVIOUS_def)
  have c: "trace (stateAfter (onInsert (resolving '''') (pluginWith ?s2)) (pluginWith ?s2)) =
             [Exec ''im-select a$b'']"
    by (simp add: onInsert_returns [OF g2] t2 execSwitch_returns [OF g2] resolving_def reported_def
          stateAfter_def)
       (simp add: pluginWith_def newPlugin_def sampleSettings_def String_replace_def)
  have d: "substituteFirst ''{im}'' ''im-select {im}'' ''$&'' = ''im-select $&''"
    "substituteFirst ''{im}'' ''im-select {im}'' ''a$$b'' = ''im-select a$$b''"
    by (simp_all add: substituteFirst_def)
  have e: "p0_trace (onSwitchToInsert (resolving '''')
                       (switchToNormalIME (resolving ''$&'')
                          (onload_p0 sampleSaved_p0 ''Darwin'' newPlugin_p0))) =
             [Exec ''im-select'', Exec ''im-select com.apple.keylayout.ABC'', Exec ''im-select {im}'']"
    by (simp add: onSwitchToInsert_def switchToPreviousIME_def switchToNormalIME_def exec_p0_def
          resolving_def onload_p0_def loadSettings_p0_def sampleSaved_p0_def newPlugin_p0_def
          DEFAULT_SETTINGS_p0_def orDefault_def String_replace_def Let_def)
  from a b c d e show ?thesis by simp
qed

section \<open>The command that \<open>execSwitch\<close> runs\<close>

text \<open>
  Claim C8. \<open>execSwitch\<close> is to replace the first \<open>{im}\<close> of the template by the target
  string. It does not for every target: \<open>replace\<close> expands the dollar patterns of the
  target. With the template \<open>im-select {im}\<close> and the target \<open>$&\<close> the command run is
  \<open>im-select {im}\<close>, where the replacement by the target gives \<open>im-select $&\<close>; with the
  target \<open>a$$b\<close> the command run is \<open>im-select a$b\<close>. The same \<open>replace\<close> call runs in
  src/unnamed/part_000, from saved settings whose default IM is \<open>a$$b\<close>.
\<close>

theorem execSwitch_expands_dollar_pattern:
  "commands (trace (stateAfter (execSwitch (resolving '''') (pluginWith sampleSettings) ''$&'')
                      (pluginWith sampleSettings))) =
     [Exec ''im-select {im}'']
   \<and> substituteFirst ''{im}'' ''im-select {im}'' ''$&'' = ''im-select $&''
   \<and> commands (trace (stateAfter (execSwitch (resolving '''') (pluginWith sampleSettings) ''a$$b'')
                        (pluginWith sampleSettings))) =
       [Exec ''im-select a$b'']
   \<and> substituteFirst ''{im}'' ''im-select {im}'' ''a$$b'' = ''im-select a$$b''
   \<and> p0_trace (switchToNormalIME (resolving ''pinyin'')
                (onload_p0
                   (Some \<lparr> saved0_defaultIM = Some ''a$$b'', saved0_obtainCmd = Some ''im-select'',
                           saved0_switchCmd = Some ''im-select {im}'', saved0_windowsDefaultIM = None,
                           saved0_windowsObtainCmd = None, saved0_windowsSwitchCmd = None,
                           saved0_switchOnInsert = None, saved0_normalModeOnFocus = None \<rparr>)
                   ''Darwin'' newPlugin_p0)) =
       [Exec ''im-select'', Exec ''im-select a$b'']"
proof -
  have g: "getPlatformSettings (pluginWith sampleSettings) None =
             Inr (defaultPlatformSettings sampleSettings)"
    by (simp add: getPlatformSettings_def pluginWith_def newPlugin_def)
  have a: "commands (trace (stateAfter (execSwitch (resolving '''') (pluginWith sampleSettings) ''$&'')
                              (pluginWith sampleSettings))) =
             [Exec ''im-select {im}'']"
    "commands (trace (stateAfter (execSwitch (resolving '''') (pluginWith sampleSettings) ''a$$b'')
                        (pluginWith sampleSettings))) =
       [Exec ''im-select a$b'']"
    by (simp_all add: commands_execSwitch [OF g])
       (simp_all add: pluginWith_def newPlugin_def sampleSettings_def String_replace_def commands_def)
  have b: "substituteFirst ''{im}'' ''im-select {im}'' ''$&'' = ''im-select $&''"
    "substituteFirst ''{im}'' ''im-select {im}'' ''a$$b'' = ''im-select a$$b''"
    by (simp_all add: substituteFirst_def)
  have c: "p0_trace (switchToNormalIME (resolving ''pinyin'')
                (onload_p0
                   (Some \<lparr> saved0_defaultIM = Some ''a$$b'', saved0_obtainCmd = Some ''im-select'',
                           saved0_switchCmd = Some ''im-select {im}'', saved0_windowsDefaultIM = None,
                           saved0_windowsObtainCmd = None, saved0_windowsSwitchCmd = None,
                           saved0_switchOnInsert = None, saved0_normalModeOnFocus = None \<rparr>)
                   ''Darwin'' newPlugin_p0)) =
       [Exec ''im-select'', Exec ''im-select a$b'']"
    by (simp add: switchToNormalIME_def exec_p0_def resolving_def onload_p0_def
          loadSettings_p0_def newPlugin_p0_def DEFAULT_SETTINGS_p0_def orDefault_def
          String_replace_def Let_def)
  from a b c show ?thesis by simp
qed

section \<open>The value of \<open>previousIMEMode\<close>\<close>

text \<open>
  The plugin of src/main.ts as it is created has no settings, and it never gets any:
  \<open>onload\<close> raises before it assigns \<open>previousIMEMode\<close>, and no notification runs a
  command or writes \<open>previousIMEMode\<close>.
\<close>

lemma onload_created_plugin:
  "onload osType newPlugin = (Some TypeError, newPlugin\<lparr>isWinPlatform := (osType = ''Windows_NT'')\<rparr>)"
  by (simp add: onload_def newPlugin_def getPlatformSettings_def)

lemma notify_without_settings:
  assumes "settings p = None"
  shows "settings (notify w p m) = None \<and> trace (notify w p m) = trace p
         \<and> previousIMEMode (notify w p m) = previousIMEMode p"
proof -
  from assms have r: "onInsert w p = Inl TypeError" "onNormal w p = Inl TypeError"
    by (simp_all add: onInsert_raises onNormal_raises)
  show ?thesis
    using assms by (cases m) (simp_all add: notify_def stateAfter_def onVimModeChanged_def r)
qed

lemma notifyAll_without_settings:
  "settings p = None \<Longrightarrow>
   trace (notifyAll w p ms) = trace p \<and> previousIMEMode (notifyAll w p ms) = previousIMEMode p"
proof (induction ms arbitrary: p)
  case Nil
  show ?case by simp
next
  case (Cons m ms)
  from notify_without_settings [OF Cons.prems, of w m] Cons.IH [of "notify w p m"]
  show ?case by simp
qed

text \<open>
  Claim C6 (amended). \<open>previousIMEMode\<close> is null when the plugin object is created.
  \<open>onload\<close> sets it to the normal IM of the platform it detects, and runs no command:
  always in src/unnamed/part_000, which loads the settings first, and in src/main.ts
  where the plugin has settings (where it has none, \<open>onload\<close> raises and leaves the field
  as it was). Apart from \<open>onload\<close>, only an obtain command that succeeds assigns the
  field: the operations that switch keep it, \<open>switchToNormalIME\<close> and \<open>onNormal\<close> keep it
  when the obtain command fails and store its output otherwise, and a mode notification,
  an opened file and the focus of the window keep it or do what \<open>onNormal\<close> does.
\<close>

theorem previousIMEMode_assigned_by_onload_and_obtain_only:
  "previousIMEMode newPlugin = None
   \<and> p0_previousIMEMode newPlugin_p0 = None
   \<and> p0_previousIMEMode (onload_p0 data osType q) =
       Some (if osType = ''Windows_NT'' then p0_windowsDefaultIM (p0_settings (loadSettings_p0 data q))
             else p0_defaultIM (p0_settings (loadSettings_p0 data q)))
   \<and> p0_trace (onload_p0 data osType q) = p0_trace q
   \<and> p0_previousIMEMode (switchToPreviousIME w q) = p0_previousIMEMode q
   \<and> p0_previousIMEMode (onSwitchToInsert w q) = p0_previousIMEMode q
   \<and> p0_previousIMEMode (switchToNormalIME w q) =
       (case w (p0_trace q)
               (if p0_isWinPlatform q then p0_windowsObtainCmd (p0_settings q)
                else p0_obtainCmd (p0_settings q)) of
          Resolved out errOut \<Rightarrow> Some out
        | Rejected err \<Rightarrow> p0_previousIMEMode q)
   \<and> previousIMEMode (snd (onload osType p)) =
       (case settings p of
          None \<Rightarrow> previousIMEMode p
        | Some s \<Rightarrow>
            Some (normalIM (if osType = ''Windows_NT'' then windowsPlatformSettings s
                            else defaultPlatformSettings s)))
   \<and> trace (snd (onload osType p)) = trace p
   \<and> previousIMEMode (stateAfter (execSwitch w p im) p) = previousIMEMode p
   \<and> previousIMEMode (stateAfter (onInsert w p) p) = previousIMEMode p
   \<and> previousIMEMode (stateAfter (onNormal w p) p) =
       (case getPlatformSettings p None of
          Inl e \<Rightarrow> previousIMEMode p
        | Inr ps \<Rightarrow>
            (case w (trace p) (obtainCmd ps) of
               Resolved out errOut \<Rightarrow> Some out
             | Rejected err \<Rightarrow> previousIMEMode p))
   \<and> (previousIMEMode (notify w p m) = previousIMEMode p
       \<or> previousIMEMode (notify w p m) = previousIMEMode (stateAfter (onNormal w p) p))
   \<and> previousIMEMode (stateAfter (onFileOpen w p) p) = previousIMEMode (stateAfter (onNormal w p) p)
   \<and> (previousIMEMode (stateAfter (onFocus w p) p) = previousIMEMode p
       \<or> previousIMEMode (stateAfter (onFocus w p) p) = previousIMEMode (stateAfter (onNormal w p) p))"
proof -
  have p0: "p0_previousIMEMode (onload_p0 data osType q) =
              Some (if osType = ''Windows_NT'' then p0_windowsDefaultIM (p0_settings (loadSettings_p0 data q))
                    else p0_defaultIM (p0_settings (loadSettings_p0 data q)))"
    "p0_trace (onload_p0 data osType q) = p0_trace q"
    by (simp_all add: onload_p0_def loadSettings_p0_def Let_def)
  have sw: "p0_previousIMEMode (switchToPreviousIME w q) = p0_previousIMEMode q"
    by (simp add: switchToPreviousIME_def exec_p0_def showError_p0_def Let_def
          split: option.splits exec_result.splits)
  then have si: "p0_previousIMEMode (onSwitchToInsert w q) = p0_previousIMEMode q"
    by (simp add: onSwitchToInsert_def)
  have sn: "p0_previousIMEMode (switchToNormalIME w q) =
              (case w (p0_trace q)
                      (if p0_isWinPlatform q then p0_windowsObtainCmd (p0_settings q)
                       else p0_obtainCmd (p0_settings q)) of
                 Resolved out errOut \<Rightarrow> Some out
               | Rejected err \<Rightarrow> p0_previousIMEMode q)"
    by (simp add: switchToNormalIME_def exec_p0_def showError_p0_def Let_def
          split: exec_result.splits)
  have l: "previousIMEMode (snd (onload osType p)) =
             (case settings p of
                None \<Rightarrow> previousIMEMode p
              | Some s \<Rightarrow>
                  Some (normalIM (if osType = ''Windows_NT'' then windowsPlatformSettings s
                                  else defaultPlatformSettings s)))"
    "trace (snd (onload osType p)) = trace p"
    by (simp_all add: onload_def getPlatformSettings_def Let_def split: option.splits)
  have n: "previousIMEMode (notify w p m) = previousIMEMode p
           \<or> previousIMEMode (notify w p m) = previousIMEMode (stateAfter (onNormal w p) p)"
  proof (cases m)
    case (Object kvs)
    show ?thesis
    proof (cases "kvs = []")
      case True
      with Object show ?thesis by (simp add: notify_def stateAfter_def onVimModeChanged_def)
    next
      case False
      have i: "previousIMEMode (stateAfter (onInsert w p) p) = previousIMEMode p"
        by (rule onInsert_keeps)
      from Object False i show ?thesis
        by (auto simp: notify_def stateAfter_def onVimModeChanged_Object split: sum.splits)
    qed
  qed (simp_all add: notify_def stateAfter_def onVimModeChanged_def)
  have f: "previousIMEMode (stateAfter (onFileOpen w p) p) = previousIMEMode (stateAfter (onNormal w p) p)"
    "previousIMEMode (stateAfter (onFocus w p) p) = previousIMEMode p
     \<or> previousIMEMode (stateAfter (onFocus w p) p) = previousIMEMode (stateAfter (onNormal w p) p)"
    by (simp_all add: onFileOpen_def onFocus_def stateAfter_def)
  from p0 sw si sn l n f show ?thesis
    by (simp add: newPlugin_def newPlugin_p0_def execSwitch_keeps onInsert_keeps
          onNormal_previousIMEMode)
qed

text \<open>
  Claim C6 as it is written fails in src/unnamed/part_000: \<open>onload\<close> assigns a string to
  \<open>previousIMEMode\<close> and no command has run by then. With nothing saved the string is
  empty; with the sample settings saved it is the default IM, and \<open>onSwitchToInsert\<close>
  right after \<open>onload\<close> runs the switch command for it, where it would run nothing on
  null.
\<close>

theorem onload_sets_previousIMEMode_counterexample:
  "p0_previousIMEMode newPlugin_p0 = None
   \<and> p0_previousIMEMode (onload_p0 None ''Darwin'' newPlugin_p0) = Some ''''
   \<and> p0_trace (onload_p0 None ''Darwin'' newPlugin_p0) = []
   \<and> p0_previousIMEMode (onload_p0 sampleSaved_p0 ''Darwin'' newPlugin_p0) =
       Some ''com.apple.keylayout.ABC''
   \<and> p0_previousIMEMode (onload_p0 sampleSaved_p0 ''Darwin'' newPlugin_p0) \<noteq> None
   \<and> p0_trace (onload_p0 sampleSaved_p0 ''Darwin'' newPlugin_p0) = []
   \<and> p0_trace (onSwitchToInsert (resolving '''') (onload_p0 sampleSaved_p0 ''Darwin'' newPlugin_p0)) =
       [Exec ''im-select com.apple.keylayout.ABC'']"
proof -
  have a: "p0_previousIMEMode (onload_p0 None ''Darwin'' newPlugin_p0) = Some ''''"
    "p0_trace (onload_p0 None ''Darwin'' newPlugin_p0) = []"
    "p0_previousIMEMode (onload_p0 sampleSaved_p0 ''Darwin'' newPlugin_p0) =
       Some ''com.apple.keylayout.ABC''"
    "p0_trace (onload_p0 sampleSaved_p0 ''Darwin'' newPlugin_p0) = []"
    by (simp_all add: onload_p0_def loadSettings_p0_def newPlugin_p0_def DEFAULT_SETTINGS_p0_def
          sampleSaved_p0_def orDefault_def Let_def)
  have b: "p0_trace (onSwitchToInsert (resolving '''') (onload_p0 sampleSaved_p0 ''Darwin'' newPlugin_p0)) =
             [Exec ''im-select com.apple.keylayout.ABC'']"
    by (simp add: onSwitchToInsert_def switchToPreviousIME_def exec_p0_def resolving_def
          onload_p0_def loadSettings_p0_def newPlugin_p0_def DEFAULT_SETTINGS_p0_def
          sampleSaved_p0_def orDefault_def String_replace_def Let_def)
  from a b show ?thesis by (simp add: newPlugin_p0_def)
qed

section \<open>Saving and loading the settings\<close>

text \<open>
  Claim C9. Flattening the settings as \<open>saveSettings\<close> does and building the settings
  again from the saved object as \<open>loadSettings\<close> does gives the settings back, field for
  field.
\<close>

theorem settings_round_trip:
  "loadSettings (saveData (saveSettings s)) = s"
  by (simp add: loadSettings_def saveData_def saveSettings_def Object_assign_def orDefault_def)


end
